theory Spec2Isabelle
  imports Main "HOL-Library.Word" "HOL-Library.Log_Nat"
begin

section \<open>Values exchanged with the chain\<close>

text \<open>
  A public key is identified with its base58 text, so \<open>toBase58\<close> is the identity and
  \<open>equals\<close> is equality. Raw account data and serialized transactions are byte lists.
\<close>

type_synonym pubkey = string
type_synonym buffer = "8 word list"

text \<open>
  A thrown JavaScript value: an \<open>Error\<close> object with its message, or any other value with
  its \<open>String(e)\<close> rendering. \<open>errorText\<close> is the expression
  \<^verbatim>\<open>e instanceof Error ? e.message : String(e)\<close> of the catch blocks.
\<close>

datatype exn = Error string | NonError string

fun errorText :: "exn \<Rightarrow> string" where
  "errorText (Error m) = m"
| "errorText (NonError r) = r"

record AccountMeta =
  pubkey :: pubkey
  isSigner :: bool
  isWritable :: bool

datatype instruction =
    SetComputeUnitLimit int
  | TransactionInstruction pubkey "AccountMeta list" buffer
  | SystemCreateAccount pubkey pubkey int int pubkey
  | CreateAssociatedTokenAccount pubkey pubkey pubkey pubkey

record Transaction =
  instructions :: "instruction list"
  recentBlockhash :: "string option"
  feePayer :: "pubkey option"

definition Transaction_new :: Transaction where
  "Transaction_new =
     \<lparr>instructions = [], recentBlockhash = None, feePayer = None\<rparr>"

definition Transaction_add :: "Transaction \<Rightarrow> instruction \<Rightarrow> Transaction" where
  "Transaction_add tx ix = tx\<lparr>instructions := instructions tx @ [ix]\<rparr>"

record BlockhashInfo =
  blockhash :: string
  lastValidBlockHeight :: nat

text \<open>The chain-reported execution error, identified with its \<open>JSON.stringify\<close> text.\<close>

datatype TransactionError = TransactionError string

fun JSON_stringify :: "TransactionError \<Rightarrow> string" where
  "JSON_stringify (TransactionError j) = j"

record TxMeta =
  logMessages :: "string list option"

record TxInfo =
  meta :: "TxMeta option"

record ParsedError =
  code :: nat
  name :: string
  hint :: "string option"

record TxResult =
  signature :: string
  error :: "string option"
  hint :: "string option"

section \<open>Slab views used by the client\<close>

datatype AccountKind = User | LP

record Account =
  kind :: AccountKind
  owner :: pubkey
  capital :: int
  pnl :: int
  positionSize :: int
  entryPrice :: int

text \<open>An entry of \<open>parseAllAccounts\<close>: a used slot and the account parsed from it.\<close>

record Slot =
  idx :: nat
  account :: Account

record PositionInfo =
  index :: nat
  kind :: string
  owner :: string
  capital :: int
  pnl :: int
  positionSize :: int
  entryPrice :: int
  leverage :: rat

record InitMarketArgs =
  admin :: pubkey
  collateralMint :: pubkey
  indexFeedId :: string
  maxStalenessSecs :: int
  confFilterBps :: int
  invert :: int
  unitScale :: int
  initialMarkPriceE6 :: int
  maintenanceMarginBps :: int
  initialMarginBps :: int
  tradingFeeBps :: int
  maxAccounts :: int
  newAccountFee :: int
  warmupPeriodSlots :: int
  riskReductionThreshold :: int
  maintenanceFeePerSlot :: int
  maxCrankStalenessSlots :: int
  liquidationFeeBps :: int
  liquidationFeeCap :: int
  liquidationBufferBps :: int
  minLiquidationAbs :: int

record MarketConfig =
  collateralMint :: pubkey
  vaultPubkey :: pubkey
  indexFeedId :: pubkey

section \<open>Effects: state, trace and exceptions\<close>

text \<open>
  Every call that leaves the process is recorded in a trace, in the order it happens,
  and so is every \<open>console.warn\<close>. The trace is how the properties on fetching and
  submitting are stated. The progress lines written with \<open>console.log\<close> are left out.
\<close>

datatype event =
    FetchSlab pubkey
  | GetLatestBlockhash
  | SignTransaction
  | SendRawTransaction buffer
  | ConfirmTransaction string
  | GetTransaction string
  | GetMinimumBalanceForRentExemption int
  | KeypairGenerate
  | DateNow
  | ConsoleWarn string

text \<open>
  The state a \<open>PercolatorClient\<close> method runs in: the outside world \<open>'w\<close> (chain, wallet,
  clock), the two private cache fields of the client, and the trace.
\<close>

record 'w state =
  world :: 'w
  slabData :: "buffer option"
  marketConfig :: "MarketConfig option"
  trace :: "event list"

type_synonym ('a, 'w) prog = "'w state \<Rightarrow> (exn + 'a) \<times> 'w state"

definition returnM :: "'a \<Rightarrow> ('a, 'w) prog" where
  "returnM x = (\<lambda>s. (Inr x, s))"

definition throwM :: "exn \<Rightarrow> ('a, 'w) prog" where
  "throwM e = (\<lambda>s. (Inl e, s))"

definition bindM :: "('a, 'w) prog \<Rightarrow> ('a \<Rightarrow> ('b, 'w) prog) \<Rightarrow> ('b, 'w) prog" where
  "bindM m f = (\<lambda>s. case m s of (Inl e, s') \<Rightarrow> (Inl e, s') | (Inr x, s') \<Rightarrow> f x s')"

text \<open>A pure computation that may throw.\<close>

definition liftE :: "exn + 'a \<Rightarrow> ('a, 'w) prog" where
  "liftE r = (\<lambda>s. (r, s))"

text \<open>\<^verbatim>\<open>try { m } catch (e) { h e }\<close>\<close>

definition catchM :: "('a, 'w) prog \<Rightarrow> (exn \<Rightarrow> ('a, 'w) prog) \<Rightarrow> ('a, 'w) prog" where
  "catchM m h = (\<lambda>s. case m s of (Inl e, s') \<Rightarrow> h e s' | (Inr x, s') \<Rightarrow> (Inr x, s'))"

text \<open>An awaited call to a collaborator: it acts on the world only, and is traced.\<close>

definition gets :: "('w state \<Rightarrow> 'a) \<Rightarrow> ('a, 'w) prog" where
  "gets f = (\<lambda>s. (Inr (f s), s))"

definition modify :: "('w state \<Rightarrow> 'w state) \<Rightarrow> (unit, 'w) prog" where
  "modify f = (\<lambda>s. (Inr (), f s))"

text \<open>Reading a property of a value that is \<open>null\<close> at run time throws a \<open>TypeError\<close>.\<close>

definition nonNull :: "'a option \<Rightarrow> ('a, 'w) prog" where
  "nonNull v = (case v of Some x \<Rightarrow> returnM x | None \<Rightarrow> throwM (Error ''TypeError''))"

definition consoleWarn :: "string \<Rightarrow> (unit, 'w) prog" where
  "consoleWarn msg = modify (\<lambda>s. s\<lparr>trace := trace s @ [ConsoleWarn msg]\<rparr>)"

definition call :: "event \<Rightarrow> ('w \<Rightarrow> (exn + 'a) \<times> 'w) \<Rightarrow> ('a, 'w) prog" where
  "call ev f = (\<lambda>s. case f (world s) of
                  (r, w') \<Rightarrow> (r, s\<lparr>world := w', trace := trace s @ [ev]\<rparr>))"

section \<open>Collaborators\<close>

text \<open>
  The chain connection, the library calls and the modules of this repository that the
  client imports (\<open>solana/slab\<close>, \<open>solana/pda\<close>, \<open>abi/errors\<close>, \<open>abi/instructions\<close>,
  \<open>abi/accounts\<close>) are parameters: each is a function that returns a value or throws.
  A key pair is identified with its public key. The options of \<open>sendRawTransaction\<close> and
  the commitment levels are left out.
\<close>

record ('w, 'e) env =
  fetchSlab :: "pubkey \<Rightarrow> 'w \<Rightarrow> (exn + buffer) \<times> 'w"
  parseConfig :: "buffer \<Rightarrow> exn + MarketConfig"
  parseEngine :: "buffer \<Rightarrow> exn + 'e"
  parseAccount :: "buffer \<Rightarrow> int \<Rightarrow> exn + Account"
  parseAllAccounts :: "buffer \<Rightarrow> exn + Slot list"
  parseErrorFromLogs :: "string list \<Rightarrow> exn + ParsedError option"
  getLatestBlockhash :: "'w \<Rightarrow> (exn + BlockhashInfo) \<times> 'w"
  serialize :: "Transaction \<Rightarrow> exn + buffer"
  sendRawTransaction :: "buffer \<Rightarrow> 'w \<Rightarrow> (exn + string) \<times> 'w"
  confirmTransaction :: "string \<Rightarrow> string \<Rightarrow> nat \<Rightarrow> 'w \<Rightarrow> (exn + TransactionError option) \<times> 'w"
  getTransaction :: "string \<Rightarrow> 'w \<Rightarrow> (exn + TxInfo option) \<times> 'w"
  getMinimumBalanceForRentExemption :: "int \<Rightarrow> 'w \<Rightarrow> (exn + int) \<times> 'w"
  keypairGenerate :: "'w \<Rightarrow> (exn + pubkey) \<times> 'w"
  partialSign :: "Transaction \<Rightarrow> pubkey \<Rightarrow> exn + Transaction"
  getAssociatedTokenAddress :: "pubkey \<Rightarrow> pubkey \<Rightarrow> bool \<Rightarrow> exn + pubkey"
  dateNow :: "'w \<Rightarrow> int \<times> 'w"

record 'w WalletAdapter =
  publicKey :: pubkey
  signTransaction :: "Transaction \<Rightarrow> 'w \<Rightarrow> (exn + Transaction) \<times> 'w"

record PercolatorConfig =
  programId :: pubkey
  slabPubkey :: pubkey

record WellKnown =
  tokenProgram :: pubkey
  clock :: pubkey
  rent :: pubkey
  systemProgram :: pubkey

text \<open>The account-role templates of \<open>abi/accounts\<close>, by name.\<close>

datatype AccountTemplate =
    ACCOUNTS_INIT_MARKET
  | ACCOUNTS_INIT_USER
  | ACCOUNTS_INIT_LP
  | ACCOUNTS_DEPOSIT_COLLATERAL
  | ACCOUNTS_WITHDRAW_COLLATERAL
  | ACCOUNTS_TRADE_CPI
  | ACCOUNTS_TRADE_NOCPI
  | ACCOUNTS_KEEPER_CRANK
  | ACCOUNTS_CLOSE_ACCOUNT
  | ACCOUNTS_TOPUP_INSURANCE
  | ACCOUNTS_SET_ORACLE_AUTHORITY
  | ACCOUNTS_PUSH_ORACLE_PRICE

text \<open>
  The encoders take the fields of their argument struct in the order the client writes
  them; a \<open>bigint\<close> passed as \<open>toString()\<close> is the integer itself.
\<close>

record abi =
  encodeInitMarket :: "InitMarketArgs \<Rightarrow> exn + buffer"
  encodeInitUser :: "int \<Rightarrow> exn + buffer"
  encodeInitLP :: "pubkey \<Rightarrow> pubkey \<Rightarrow> int \<Rightarrow> exn + buffer"
  encodeDepositCollateral :: "int \<Rightarrow> int \<Rightarrow> exn + buffer"
  encodeWithdrawCollateral :: "int \<Rightarrow> int \<Rightarrow> exn + buffer"
  encodeTradeCpi :: "int \<Rightarrow> int \<Rightarrow> int \<Rightarrow> exn + buffer"
  encodeTradeNoCpi :: "int \<Rightarrow> int \<Rightarrow> int \<Rightarrow> exn + buffer"
  encodeKeeperCrank :: "int \<Rightarrow> bool \<Rightarrow> exn + buffer"
  encodeCloseAccount :: "int \<Rightarrow> exn + buffer"
  encodeTopUpInsurance :: "int \<Rightarrow> exn + buffer"
  encodeSetOracleAuthority :: "pubkey \<Rightarrow> exn + buffer"
  encodePushOraclePrice :: "int \<Rightarrow> int \<Rightarrow> exn + buffer"
  buildAccountMetas :: "AccountTemplate \<Rightarrow> pubkey list \<Rightarrow> exn + AccountMeta list"
  WELL_KNOWN :: WellKnown
  deriveVaultAuthority :: "pubkey \<Rightarrow> pubkey \<Rightarrow> exn + pubkey \<times> int"
  deriveLpPda :: "pubkey \<Rightarrow> pubkey \<Rightarrow> int \<Rightarrow> exn + pubkey \<times> int"
  findProgramAddressSync :: "pubkey list \<Rightarrow> pubkey \<Rightarrow> exn + pubkey \<times> int"

section \<open>Number.prototype.toString(16)\<close>

definition hexDigit :: "nat \<Rightarrow> char" where
  "hexDigit d = (''0123456789abcdef'') ! d"

function toString16 :: "nat \<Rightarrow> string" where
  "toString16 n = (if n < 16 then [hexDigit n] else toString16 (n div 16) @ [hexDigit (n mod 16)])"
  by pat_completeness auto
termination
  by (relation "measure id") auto

declare toString16.simps [simp del]

section \<open>PercolatorClient.sendTransaction\<close>

text \<open>\<^verbatim>\<open>txInfo?.meta?.logMessages ?? []\<close>\<close>

definition logsOf :: "TxInfo option \<Rightarrow> string list" where
  "logsOf txInfo =
     (case txInfo of
        None \<Rightarrow> []
      | Some ti \<Rightarrow> (case meta ti of
                     None \<Rightarrow> []
                   | Some m \<Rightarrow> (case logMessages m of None \<Rightarrow> [] | Some ls \<Rightarrow> ls)))"

text \<open>
  The transaction after \<open>recentBlockhash\<close> and \<open>feePayer\<close> are set. (The source sets
  them on the caller's object; the caller's copy is not followed here.)
\<close>

definition prepared :: "Transaction \<Rightarrow> BlockhashInfo \<Rightarrow> pubkey \<Rightarrow> Transaction" where
  "prepared tx lb payer = tx\<lparr>recentBlockhash := Some (blockhash lb), feePayer := Some payer\<rparr>"

definition decodedFailure :: "string \<Rightarrow> ParsedError \<Rightarrow> TxResult" where
  "decodedFailure sig p =
     \<lparr>signature = sig,
      error = Some (name p @ '' (0x'' @ toString16 (code p) @ '')''),
      hint = ParsedError.hint p\<rparr>"

definition rawFailure :: "string \<Rightarrow> TransactionError \<Rightarrow> TxResult" where
  "rawFailure sig err = \<lparr>signature = sig, error = Some (JSON_stringify err), hint = None\<rparr>"

definition confirmed :: "string \<Rightarrow> TxResult" where
  "confirmed sig = \<lparr>signature = sig, error = None, hint = None\<rparr>"

definition caught :: "exn \<Rightarrow> TxResult" where
  "caught e = \<lparr>signature = [], error = Some (errorText e), hint = None\<rparr>"

text \<open>The body of the \<open>try\<close> block.\<close>

definition sendTransaction_try ::
  "('w, 'e) env \<Rightarrow> 'w WalletAdapter \<Rightarrow> Transaction \<Rightarrow> (TxResult, 'w) prog" where
  "sendTransaction_try env wallet tx =
     bindM (call GetLatestBlockhash (getLatestBlockhash env)) (\<lambda>latestBlockhash.
     bindM (call SignTransaction
              (signTransaction wallet (prepared tx latestBlockhash (publicKey wallet)))) (\<lambda>signed.
     bindM (liftE (serialize env signed)) (\<lambda>rawTx.
     bindM (call (SendRawTransaction rawTx) (sendRawTransaction env rawTx)) (\<lambda>sig.
     bindM (call (ConfirmTransaction sig)
              (confirmTransaction env sig (blockhash latestBlockhash)
                 (lastValidBlockHeight latestBlockhash))) (\<lambda>confirmation.
       case confirmation of
         Some err \<Rightarrow>
           bindM (call (GetTransaction sig) (getTransaction env sig)) (\<lambda>txInfo.
           bindM (liftE (parseErrorFromLogs env (logsOf txInfo))) (\<lambda>parsed.
             returnM (case parsed of
                        Some p \<Rightarrow> decodedFailure sig p
                      | None \<Rightarrow> rawFailure sig err)))
       | None \<Rightarrow> returnM (confirmed sig))))))"

definition sendTransaction ::
  "('w, 'e) env \<Rightarrow> 'w WalletAdapter \<Rightarrow> Transaction \<Rightarrow> (TxResult, 'w) prog" where
  "sendTransaction env wallet tx =
     catchM (sendTransaction_try env wallet tx) (\<lambda>e. returnM (caught e))"

text \<open>How many transactions the trace shows as submitted.\<close>

definition submissions :: "event list \<Rightarrow> nat" where
  "submissions evs = length (filter (\<lambda>ev. case ev of SendRawTransaction _ \<Rightarrow> True | _ \<Rightarrow> False) evs)"

section \<open>PercolatorClient: data fetching\<close>

definition refreshSlab :: "('w, 'e) env \<Rightarrow> PercolatorConfig \<Rightarrow> (buffer, 'w) prog" where
  "refreshSlab env cfg =
     bindM (call (FetchSlab (slabPubkey cfg)) (fetchSlab env (slabPubkey cfg))) (\<lambda>fetched.
     bindM (modify (\<lambda>s. s\<lparr>slabData := Some fetched\<rparr>)) (\<lambda>_.
     bindM (liftE (parseConfig env fetched)) (\<lambda>parsed.
     bindM (modify (\<lambda>s. s\<lparr>marketConfig := Some parsed\<rparr>)) (\<lambda>_.
     returnM fetched))))"

text \<open>
  \<^verbatim>\<open>if (!this.marketConfig) await this.refreshSlab(); return this.marketConfig!;\<close>
  The \<open>!\<close> is erased at run time, so the result is the field as it is.
\<close>

definition getMarketConfig ::
  "('w, 'e) env \<Rightarrow> PercolatorConfig \<Rightarrow> (MarketConfig option, 'w) prog" where
  "getMarketConfig env cfg =
     bindM (gets marketConfig) (\<lambda>cached.
     bindM (case cached of
              None \<Rightarrow> bindM (refreshSlab env cfg) (\<lambda>_. returnM ())
            | Some _ \<Rightarrow> returnM ()) (\<lambda>_.
     gets marketConfig))"

definition getEngineState :: "('w, 'e) env \<Rightarrow> PercolatorConfig \<Rightarrow> ('e, 'w) prog" where
  "getEngineState env cfg =
     bindM (gets slabData) (\<lambda>cached.
     bindM (case cached of
              None \<Rightarrow> bindM (refreshSlab env cfg) (\<lambda>_. returnM ())
            | Some _ \<Rightarrow> returnM ()) (\<lambda>_.
     bindM (bindM (gets slabData) nonNull) (\<lambda>d.
     liftE (parseEngine env d))))"

record 'e MarketInfo =
  config :: MarketConfig
  engine :: 'e
  accounts :: "Slot list"

definition getMarketInfo :: "('w, 'e) env \<Rightarrow> PercolatorConfig \<Rightarrow> ('e MarketInfo, 'w) prog" where
  "getMarketInfo env cfg =
     bindM (refreshSlab env cfg) (\<lambda>d.
     bindM (liftE (parseConfig env d)) (\<lambda>c.
     bindM (liftE (parseEngine env d)) (\<lambda>e.
     bindM (liftE (parseAllAccounts env d)) (\<lambda>a.
     returnM \<lparr>config = c, engine = e, accounts = a\<rparr>))))"

definition findUserAccount ::
  "('w, 'e) env \<Rightarrow> PercolatorConfig \<Rightarrow> pubkey \<Rightarrow> (Slot option, 'w) prog" where
  "findUserAccount env cfg key =
     bindM (refreshSlab env cfg) (\<lambda>d.
     bindM (liftE (parseAllAccounts env d)) (\<lambda>accs.
     returnM (find (\<lambda>a. Account.owner (account a) = key) accs)))"

section \<open>Positions and leverage\<close>

text \<open>Division of \<open>bigint\<close> values truncates towards zero.\<close>

definition bigintDiv :: "int \<Rightarrow> int \<Rightarrow> int" where
  "bigintDiv a b = sgn a * sgn b * (\<bar>a\<bar> div \<bar>b\<bar>)"

definition abs128 :: "int \<Rightarrow> int" where
  "abs128 val = (if val < 0 then - val else val)"

text \<open>
  \<open>Number(x)\<close> and the division of two numbers are IEEE 754 double precision: a finite
  double is the rational it denotes, and a result is rounded to 53 significant bits, ties
  to even. Overflow and subnormal results are outside the model; they need an operand
  of at least \<open>2^1024\<close> or a quotient below \<open>2^-1022\<close>, and the slab's integers have at
  most 128 bits.
\<close>

definition roundHalfEven :: "rat \<Rightarrow> int" where
  "roundHalfEven q =
     (let f = \<lfloor>q\<rfloor>; r = q - of_int f
      in if r < 1 / 2 then f else if 1 / 2 < r then f + 1 else if even f then f else f + 1)"

text \<open>For \<open>q > 0\<close>, the exponent \<open>k\<close> with \<open>2^k \<le> q < 2^(k+1)\<close>.\<close>

definition binade :: "rat \<Rightarrow> int" where
  "binade q =
     (let (a, b) = quotient_of q; k = bitlen a - bitlen b
      in if power_int 2 k \<le> q then k else k - 1)"

definition toDouble :: "rat \<Rightarrow> rat" where
  "toDouble q =
     (if q = 0 then 0
      else let a = \<bar>q\<bar>; e = binade a - 52; m = roundHalfEven (a / power_int 2 e)
           in sgn q * of_int m * power_int 2 e)"

definition Number :: "int \<Rightarrow> rat" where
  "Number n = toDouble (of_int n)"

definition fdiv :: "rat \<Rightarrow> rat \<Rightarrow> rat" where
  "fdiv x y = toDouble (x / y)"

definition notionalOf :: "Account \<Rightarrow> int" where
  "notionalOf a =
     (if Account.entryPrice a > 0
      then bigintDiv (abs128 (Account.positionSize a) * Account.entryPrice a) 1000000
      else 0)"

definition leverageOf :: "Account \<Rightarrow> rat" where
  "leverageOf a =
     (if Account.capital a > 0 \<and> notionalOf a > 0
      then fdiv (Number (notionalOf a)) (Number (Account.capital a))
      else 0)"

definition toPositionInfo :: "Slot \<Rightarrow> PositionInfo" where
  "toPositionInfo a =
     \<lparr>index = idx a,
      kind = (if Account.kind (account a) = LP then ''lp'' else ''user''),
      owner = Account.owner (account a),
      capital = Account.capital (account a),
      pnl = Account.pnl (account a),
      positionSize = Account.positionSize (account a),
      entryPrice = Account.entryPrice (account a),
      leverage = leverageOf (account a)\<rparr>"

definition getAllPositions ::
  "('w, 'e) env \<Rightarrow> PercolatorConfig \<Rightarrow> (PositionInfo list, 'w) prog" where
  "getAllPositions env cfg =
     bindM (refreshSlab env cfg) (\<lambda>d.
     bindM (liftE (parseAllAccounts env d)) (\<lambda>accs.
     bindM (liftE (parseEngine env d)) (\<lambda>_.
     returnM (map toPositionInfo
                (filter (\<lambda>a. Account.positionSize (account a) \<noteq> 0) accs)))))"

text \<open>The coherence of the two cache fields.\<close>

definition cacheCoherent :: "('w, 'e) env \<Rightarrow> 'w state \<Rightarrow> bool" where
  "cacheCoherent env s =
     (case slabData s of
        None \<Rightarrow> marketConfig s = None
      | Some d \<Rightarrow> (case marketConfig s of
                    None \<Rightarrow> False
                  | Some c \<Rightarrow> parseConfig env d = Inr c))"

section \<open>PercolatorClient: transaction builders\<close>

definition TOKEN_PROGRAM_ID :: pubkey where
  "TOKEN_PROGRAM_ID = ''TokenkegQfeZyiNwAJbNbGKPFXCWuBvf9Ss623VQ5DA''"

definition ASSOCIATED_TOKEN_PROGRAM_ID :: pubkey where
  "ASSOCIATED_TOKEN_PROGRAM_ID = ''ATokenGPvbdGVxr1b2hvZbsiqW5xWH25efTNsLJA8knL''"

definition getAta :: "abi \<Rightarrow> pubkey \<Rightarrow> pubkey \<Rightarrow> (pubkey, 'w) prog" where
  "getAta abi ownerKey mint =
     bindM (liftE (findProgramAddressSync abi [ownerKey, TOKEN_PROGRAM_ID, mint]
                     ASSOCIATED_TOKEN_PROGRAM_ID)) (\<lambda>derived.
     returnM (fst derived))"

definition buildTransaction :: "instruction \<Rightarrow> (Transaction, 'w) prog" where
  "buildTransaction ix =
     returnM (Transaction_add (Transaction_add Transaction_new (SetComputeUnitLimit 400000)) ix)"

text \<open>A parameter with a default value: \<open>None\<close> is the omitted argument.\<close>

definition orDefault :: "'a option \<Rightarrow> 'a \<Rightarrow> 'a" where
  "orDefault v d = (case v of None \<Rightarrow> d | Some x \<Rightarrow> x)"

definition buildInitUserTx ::
  "('w, 'e) env \<Rightarrow> abi \<Rightarrow> PercolatorConfig \<Rightarrow> 'w WalletAdapter \<Rightarrow> int option
     \<Rightarrow> (Transaction, 'w) prog" where
  "buildInitUserTx env abi cfg wallet feePayment =
     bindM (bindM (getMarketConfig env cfg) nonNull) (\<lambda>c.
     bindM (getAta abi (publicKey wallet) (MarketConfig.collateralMint c)) (\<lambda>userAta.
     bindM (liftE (encodeInitUser abi (orDefault feePayment 1000000))) (\<lambda>ixData.
     bindM (liftE (buildAccountMetas abi ACCOUNTS_INIT_USER
              [publicKey wallet, slabPubkey cfg, userAta, vaultPubkey c,
               tokenProgram (WELL_KNOWN abi)])) (\<lambda>keys.
     buildTransaction (TransactionInstruction (programId cfg) keys ixData)))))"

definition buildDepositTx ::
  "('w, 'e) env \<Rightarrow> abi \<Rightarrow> PercolatorConfig \<Rightarrow> 'w WalletAdapter \<Rightarrow> int \<Rightarrow> int
     \<Rightarrow> (Transaction, 'w) prog" where
  "buildDepositTx env abi cfg wallet userIdx amount =
     bindM (bindM (getMarketConfig env cfg) nonNull) (\<lambda>c.
     bindM (getAta abi (publicKey wallet) (MarketConfig.collateralMint c)) (\<lambda>userAta.
     bindM (liftE (encodeDepositCollateral abi userIdx amount)) (\<lambda>ixData.
     bindM (liftE (buildAccountMetas abi ACCOUNTS_DEPOSIT_COLLATERAL
              [publicKey wallet, slabPubkey cfg, userAta, vaultPubkey c,
               tokenProgram (WELL_KNOWN abi), clock (WELL_KNOWN abi)])) (\<lambda>keys.
     buildTransaction (TransactionInstruction (programId cfg) keys ixData)))))"

definition buildWithdrawTx ::
  "('w, 'e) env \<Rightarrow> abi \<Rightarrow> PercolatorConfig \<Rightarrow> 'w WalletAdapter \<Rightarrow> int \<Rightarrow> int
     \<Rightarrow> (Transaction, 'w) prog" where
  "buildWithdrawTx env abi cfg wallet userIdx amount =
     bindM (bindM (getMarketConfig env cfg) nonNull) (\<lambda>c.
     bindM (getAta abi (publicKey wallet) (MarketConfig.collateralMint c)) (\<lambda>userAta.
     bindM (liftE (deriveVaultAuthority abi (programId cfg) (slabPubkey cfg))) (\<lambda>vaultPda.
     bindM (liftE (encodeWithdrawCollateral abi userIdx amount)) (\<lambda>ixData.
     bindM (liftE (buildAccountMetas abi ACCOUNTS_WITHDRAW_COLLATERAL
              [publicKey wallet, slabPubkey cfg, vaultPubkey c, userAta, fst vaultPda,
               tokenProgram (WELL_KNOWN abi), clock (WELL_KNOWN abi),
               MarketConfig.indexFeedId c])) (\<lambda>keys.
     buildTransaction (TransactionInstruction (programId cfg) keys ixData))))))"

definition buildTradeCpiTx ::
  "('w, 'e) env \<Rightarrow> abi \<Rightarrow> PercolatorConfig \<Rightarrow> 'w WalletAdapter \<Rightarrow> int \<Rightarrow> int \<Rightarrow> int
     \<Rightarrow> pubkey \<Rightarrow> pubkey \<Rightarrow> (Transaction, 'w) prog" where
  "buildTradeCpiTx env abi cfg wallet userIdx lpIdx sz matcherProgram matcherCtx =
     bindM (refreshSlab env cfg) (\<lambda>d.
     bindM (liftE (parseConfig env d)) (\<lambda>c.
     bindM (liftE (parseAccount env d lpIdx)) (\<lambda>lpAccount.
     bindM (liftE (deriveLpPda abi (programId cfg) (slabPubkey cfg) lpIdx)) (\<lambda>lpPda.
     bindM (liftE (encodeTradeCpi abi lpIdx userIdx sz)) (\<lambda>ixData.
     bindM (liftE (buildAccountMetas abi ACCOUNTS_TRADE_CPI
              [publicKey wallet, Account.owner lpAccount, slabPubkey cfg,
               clock (WELL_KNOWN abi), MarketConfig.indexFeedId c, matcherProgram,
               matcherCtx, fst lpPda])) (\<lambda>keys.
     buildTransaction (TransactionInstruction (programId cfg) keys ixData)))))))"

definition buildTradeNoCpiTx ::
  "('w, 'e) env \<Rightarrow> abi \<Rightarrow> PercolatorConfig \<Rightarrow> 'w WalletAdapter \<Rightarrow> int \<Rightarrow> int \<Rightarrow> int
     \<Rightarrow> 'w WalletAdapter option \<Rightarrow> (Transaction, 'w) prog" where
  "buildTradeNoCpiTx env abi cfg wallet userIdx lpIdx sz lpOwnerWallet =
     bindM (getMarketConfig env cfg) (\<lambda>c0.
     bindM (refreshSlab env cfg) (\<lambda>d.
     bindM (liftE (parseAccount env d lpIdx)) (\<lambda>lpAccount.
     bindM (liftE (encodeTradeNoCpi abi lpIdx userIdx sz)) (\<lambda>ixData.
     bindM (nonNull c0) (\<lambda>c.
     bindM (liftE (buildAccountMetas abi ACCOUNTS_TRADE_NOCPI
              [publicKey wallet,
               (case lpOwnerWallet of Some w \<Rightarrow> publicKey w | None \<Rightarrow> Account.owner lpAccount),
               slabPubkey cfg, clock (WELL_KNOWN abi), MarketConfig.indexFeedId c])) (\<lambda>keys.
     buildTransaction (TransactionInstruction (programId cfg) keys ixData)))))))"

definition buildKeeperCrankTx ::
  "('w, 'e) env \<Rightarrow> abi \<Rightarrow> PercolatorConfig \<Rightarrow> 'w WalletAdapter \<Rightarrow> int option
     \<Rightarrow> (Transaction, 'w) prog" where
  "buildKeeperCrankTx env abi cfg wallet callerIdx =
     bindM (getMarketConfig env cfg) (\<lambda>c0.
     bindM (liftE (encodeKeeperCrank abi (orDefault callerIdx 0) False)) (\<lambda>ixData.
     bindM (nonNull c0) (\<lambda>c.
     bindM (liftE (buildAccountMetas abi ACCOUNTS_KEEPER_CRANK
              [publicKey wallet, slabPubkey cfg, clock (WELL_KNOWN abi),
               MarketConfig.indexFeedId c])) (\<lambda>keys.
     buildTransaction (TransactionInstruction (programId cfg) keys ixData)))))"

definition buildCloseAccountTx ::
  "('w, 'e) env \<Rightarrow> abi \<Rightarrow> PercolatorConfig \<Rightarrow> 'w WalletAdapter \<Rightarrow> int
     \<Rightarrow> (Transaction, 'w) prog" where
  "buildCloseAccountTx env abi cfg wallet userIdx =
     bindM (bindM (getMarketConfig env cfg) nonNull) (\<lambda>c.
     bindM (getAta abi (publicKey wallet) (MarketConfig.collateralMint c)) (\<lambda>userAta.
     bindM (liftE (deriveVaultAuthority abi (programId cfg) (slabPubkey cfg))) (\<lambda>vaultPda.
     bindM (liftE (encodeCloseAccount abi userIdx)) (\<lambda>ixData.
     bindM (liftE (buildAccountMetas abi ACCOUNTS_CLOSE_ACCOUNT
              [publicKey wallet, slabPubkey cfg, vaultPubkey c, userAta, fst vaultPda,
               tokenProgram (WELL_KNOWN abi), clock (WELL_KNOWN abi),
               MarketConfig.indexFeedId c])) (\<lambda>keys.
     buildTransaction (TransactionInstruction (programId cfg) keys ixData))))))"

definition buildInitMarketTx ::
  "abi \<Rightarrow> PercolatorConfig \<Rightarrow> 'w WalletAdapter \<Rightarrow> pubkey \<Rightarrow> pubkey \<Rightarrow> pubkey \<Rightarrow> pubkey
     \<Rightarrow> InitMarketArgs \<Rightarrow> (Transaction, 'w) prog" where
  "buildInitMarketTx abi cfg wallet slab mint vault dummyAta marketArgs =
     bindM (liftE (encodeInitMarket abi marketArgs)) (\<lambda>ixData.
     bindM (liftE (buildAccountMetas abi ACCOUNTS_INIT_MARKET
              [publicKey wallet, slab, mint, vault, tokenProgram (WELL_KNOWN abi),
               clock (WELL_KNOWN abi), rent (WELL_KNOWN abi), dummyAta,
               systemProgram (WELL_KNOWN abi)])) (\<lambda>keys.
     buildTransaction (TransactionInstruction (programId cfg) keys ixData)))"

definition buildInitLpTx ::
  "abi \<Rightarrow> PercolatorConfig \<Rightarrow> 'w WalletAdapter \<Rightarrow> pubkey \<Rightarrow> pubkey \<Rightarrow> pubkey \<Rightarrow> pubkey
     \<Rightarrow> pubkey \<Rightarrow> int option \<Rightarrow> (Transaction, 'w) prog" where
  "buildInitLpTx abi cfg wallet slab mint vault matcherProgram matcherContext feePayment =
     bindM (getAta abi (publicKey wallet) mint) (\<lambda>userAta.
     bindM (liftE (encodeInitLP abi matcherProgram matcherContext
                     (orDefault feePayment 1000000))) (\<lambda>ixData.
     bindM (liftE (buildAccountMetas abi ACCOUNTS_INIT_LP
              [publicKey wallet, slab, userAta, vault, tokenProgram (WELL_KNOWN abi)])) (\<lambda>keys.
     buildTransaction (TransactionInstruction (programId cfg) keys ixData))))"

definition buildSetOracleAuthorityTx ::
  "abi \<Rightarrow> PercolatorConfig \<Rightarrow> 'w WalletAdapter \<Rightarrow> pubkey \<Rightarrow> pubkey \<Rightarrow> (Transaction, 'w) prog" where
  "buildSetOracleAuthorityTx abi cfg wallet slab newAuthority =
     bindM (liftE (encodeSetOracleAuthority abi newAuthority)) (\<lambda>ixData.
     bindM (liftE (buildAccountMetas abi ACCOUNTS_SET_ORACLE_AUTHORITY
              [publicKey wallet, slab])) (\<lambda>keys.
     buildTransaction (TransactionInstruction (programId cfg) keys ixData)))"

definition buildPushOraclePriceTx ::
  "abi \<Rightarrow> PercolatorConfig \<Rightarrow> 'w WalletAdapter \<Rightarrow> pubkey \<Rightarrow> int \<Rightarrow> int
     \<Rightarrow> (Transaction, 'w) prog" where
  "buildPushOraclePriceTx abi cfg wallet slab priceE6 timestamp =
     bindM (liftE (encodePushOraclePrice abi priceE6 timestamp)) (\<lambda>ixData.
     bindM (liftE (buildAccountMetas abi ACCOUNTS_PUSH_ORACLE_PRICE
              [publicKey wallet, slab])) (\<lambda>keys.
     buildTransaction (TransactionInstruction (programId cfg) keys ixData)))"

definition buildTopUpInsuranceTx ::
  "abi \<Rightarrow> PercolatorConfig \<Rightarrow> 'w WalletAdapter \<Rightarrow> pubkey \<Rightarrow> pubkey \<Rightarrow> pubkey \<Rightarrow> int
     \<Rightarrow> (Transaction, 'w) prog" where
  "buildTopUpInsuranceTx abi cfg wallet slab mint vault amount =
     bindM (getAta abi (publicKey wallet) mint) (\<lambda>userAta.
     bindM (liftE (encodeTopUpInsurance abi amount)) (\<lambda>ixData.
     bindM (liftE (buildAccountMetas abi ACCOUNTS_TOPUP_INSURANCE
              [publicKey wallet, slab, userAta, vault, tokenProgram (WELL_KNOWN abi)])) (\<lambda>keys.
     buildTransaction (TransactionInstruction (programId cfg) keys ixData))))"

text \<open>
  The shape every builder is to produce: the compute-budget instruction with 400,000
  units, then one instruction of the client's program carrying the encoded data.
\<close>

definition isOperationTx :: "PercolatorConfig \<Rightarrow> exn + buffer \<Rightarrow> Transaction \<Rightarrow> bool" where
  "isOperationTx cfg encoded tx =
     (case encoded of
        Inl _ \<Rightarrow> False
      | Inr ixData \<Rightarrow>
          (case instructions tx of
             [SetComputeUnitLimit units, TransactionInstruction program keys bytes] \<Rightarrow>
               units = 400000 \<and> program = PercolatorConfig.programId cfg \<and> bytes = ixData
           | _ \<Rightarrow> False))"

section \<open>The market-bootstrap saga\<close>

record MAINNET =
  programId :: pubkey
  matcherProgram :: pubkey
  collateralMint :: pubkey

definition MAINNET_CONFIG :: MAINNET where
  "MAINNET_CONFIG =
     \<lparr>programId = ''DP2EbA2v6rmkmNieZpnjumXosuXQ93r9jyb9eSzzkf1x'',
      matcherProgram = ''FbTaGPKcrgKXQx3t5WekJcAyH5cL9s8kvVccvZC3jg8r'',
      collateralMint = ''So11111111111111111111111111111111111111112''\<rparr>"


text \<open>The argument of \<open>encodeInitMarket\<close>: the literal fields, then \<open>DEFAULT_MARKET_PARAMS\<close>.\<close>

definition initMarketArgs :: "pubkey \<Rightarrow> int \<Rightarrow> InitMarketArgs" where
  "initMarketArgs adminKey initialPriceE6 =
     \<lparr>admin = adminKey,
      InitMarketArgs.collateralMint = MAINNET.collateralMint MAINNET_CONFIG,
      InitMarketArgs.indexFeedId = replicate 64 (CHR ''0''),
      maxStalenessSecs = 3600,
      confFilterBps = 0,
      invert = 0,
      unitScale = 0,
      initialMarkPriceE6 = initialPriceE6,
      maintenanceMarginBps = 500,
      initialMarginBps = 1000,
      tradingFeeBps = 10,
      maxAccounts = 4096,
      newAccountFee = 1000000,
      warmupPeriodSlots = 100,
      riskReductionThreshold = 0,
      maintenanceFeePerSlot = 0,
      maxCrankStalenessSlots = 1000,
      liquidationFeeBps = 100,
      liquidationFeeCap = 100000000,
      liquidationBufferBps = 50,
      minLiquidationAbs = 10000000\<rparr>"

record MarketCreation =
  success :: bool
  slabAddress :: "string option"
  error :: "string option"


definition failed :: "string \<Rightarrow> MarketCreation" where
  "failed msg = \<lparr>success = False, slabAddress = None, error = Some msg\<rparr>"
















section \<open>A test double of the collaborators\<close>

text \<open>
  A small deterministic chain on which the code above is run at concrete inputs. Its
  world is the number of transactions submitted so far; the signature of a submission
  is that number in hexadecimal; a confirmation reports an execution error for the
  signatures listed in \<open>failing\<close>; the logs of every transaction but the second one
  carry a program error.
\<close>

definition testConfig :: MarketConfig where
  "testConfig =
     \<lparr>MarketConfig.collateralMint = ''So11111111111111111111111111111111111111112'',
      vaultPubkey = ''vault'',
      MarketConfig.indexFeedId = ''feed''\<rparr>"

definition testAccounts :: "Slot list" where
  "testAccounts =
     [\<lparr>idx = 0, account = \<lparr>Account.kind = LP, Account.owner = ''carol'',
          Account.capital = 5000000, Account.pnl = 0, Account.positionSize = - 2000000,
          Account.entryPrice = 1000000\<rparr>\<rparr>,
      \<lparr>idx = 1, account = \<lparr>Account.kind = User, Account.owner = ''alice'',
          Account.capital = 1000000, Account.pnl = 0, Account.positionSize = 2000000,
          Account.entryPrice = 1000000\<rparr>\<rparr>,
      \<lparr>idx = 3, account = \<lparr>Account.kind = User, Account.owner = ''bob'',
          Account.capital = 700000, Account.pnl = 0, Account.positionSize = 0,
          Account.entryPrice = 0\<rparr>\<rparr>,
      \<lparr>idx = 4, account = \<lparr>Account.kind = User, Account.owner = ''alice'',
          Account.capital = 0, Account.pnl = - 5, Account.positionSize = - 3,
          Account.entryPrice = 1500000\<rparr>\<rparr>]"

text \<open>
  Modelled from the spec: the parsers of \<open>solana/slab\<close>, which are not part of the sources
  at hand. The spec has every \<open>parse*\<close> function fail with \<open>MalformedSlab\<close> on a buffer
  shorter than the layout needs; here the layout needs eight bytes, and a buffer that
  is long enough parses to the fixed views above.
\<close>

definition testParse :: "'a \<Rightarrow> buffer \<Rightarrow> exn + 'a" where
  "testParse v b = (if length b < 8 then Inl (Error ''MalformedSlab'') else Inr v)"

definition testUndercollateralized :: ParsedError where
  "testUndercollateralized =
     \<lparr>code = 13, name = ''EngineUndercollateralized'',
      ParsedError.hint = Some ''Deposit more collateral''\<rparr>"

definition testEnv :: "buffer \<Rightarrow> string list \<Rightarrow> (nat, unit) env" where
  "testEnv slab failing =
     \<lparr>fetchSlab = (\<lambda>k w. (Inr slab, w)),
      parseConfig = testParse testConfig,
      parseEngine = testParse (),
      parseAccount = (\<lambda>b i. case find (\<lambda>a. int (idx a) = i) testAccounts of
                                Some a \<Rightarrow> testParse (account a) b
                              | None \<Rightarrow> Inl (Error ''Account index out of range'')),
      parseAllAccounts = testParse testAccounts,
      parseErrorFromLogs = (\<lambda>logs. Inr (if logs = [''custom program error: 0xd'']
                                          then Some testUndercollateralized else None)),
      getLatestBlockhash = (\<lambda>w. (Inr \<lparr>blockhash = ''bh'', lastValidBlockHeight = 100\<rparr>, w)),
      serialize = (\<lambda>tx. Inr (map (\<lambda>_. 1) (instructions tx))),
      sendRawTransaction = (\<lambda>rawTx w. (Inr (toString16 w), Suc w)),
      confirmTransaction = (\<lambda>sig bh h w.
         (Inr (if sig \<in> set failing then Some (TransactionError ''InstructionError'') else None), w)),
      getTransaction = (\<lambda>sig w.
         (Inr (if sig = ''1'' then None
               else Some \<lparr>meta = Some \<lparr>logMessages = Some [''custom program error: 0xd'']\<rparr>\<rparr>), w)),
      getMinimumBalanceForRentExemption = (\<lambda>n w. (Inr (n * 6960), w)),
      keypairGenerate = (\<lambda>w. (Inr (''key'' @ toString16 w), w)),
      partialSign = (\<lambda>tx k. Inr tx),
      getAssociatedTokenAddress = (\<lambda>mint ownerKey offCurve. Inr (''ata-'' @ ownerKey)),
      dateNow = (\<lambda>w. (1700000000000, w))\<rparr>"

definition testAbi :: abi where
  "testAbi =
     \<lparr>encodeInitMarket = (\<lambda>a. Inr [0]),
      encodeInitUser = (\<lambda>fee. Inr [1]),
      encodeInitLP = (\<lambda>mp mc fee. Inr [2]),
      encodeDepositCollateral = (\<lambda>i a. Inr [3]),
      encodeWithdrawCollateral = (\<lambda>i a. Inr [4]),
      encodeTradeCpi = (\<lambda>l u z. Inr [10]),
      encodeTradeNoCpi = (\<lambda>l u z. Inr [6]),
      encodeKeeperCrank = (\<lambda>i p. Inr [5]),
      encodeCloseAccount = (\<lambda>i. Inr [8]),
      encodeTopUpInsurance = (\<lambda>a. Inr [9]),
      encodeSetOracleAuthority = (\<lambda>k. Inr [16]),
      encodePushOraclePrice = (\<lambda>p t. Inr [17]),
      buildAccountMetas = (\<lambda>t ks. Inr (map (\<lambda>k. \<lparr>pubkey = k, isSigner = False, isWritable = True\<rparr>) ks)),
      WELL_KNOWN = \<lparr>tokenProgram = ''token'', clock = ''clock'', rent = ''rent'',
                     systemProgram = ''system''\<rparr>,
      deriveVaultAuthority = (\<lambda>p k. Inr (''vault-authority'', 255)),
      deriveLpPda = (\<lambda>p k i. Inr (''lp-pda'', 254)),
      findProgramAddressSync = (\<lambda>seeds p. Inr (''pda'', 255))\<rparr>"

definition testWallet :: "nat WalletAdapter" where
  "testWallet = \<lparr>publicKey = ''alice'', signTransaction = (\<lambda>tx w. (Inr tx, w))\<rparr>"

definition rejectingWallet :: "nat WalletAdapter" where
  "rejectingWallet =
     \<lparr>publicKey = ''mallory'',
      signTransaction = (\<lambda>tx w. (Inl (Error ''User rejected the request''), w))\<rparr>"


text \<open>The same chain with the submission endpoint down.\<close>

definition offlineEnv :: "(nat, unit) env" where
  "offlineEnv =
     (testEnv [] [])\<lparr>sendRawTransaction := (\<lambda>rawTx w. (Inl (Error ''failed to send''), w))\<rparr>"

definition testClient :: PercolatorConfig where
  "testClient = \<lparr>PercolatorConfig.programId = ''program'', slabPubkey = ''slab''\<rparr>"

definition testSlab :: buffer where
  "testSlab = [1, 2, 3, 4, 5, 6, 7, 8]"

text \<open>A client that has fetched nothing yet, and one whose cache is filled.\<close>

definition freshState :: "nat state" where
  "freshState = \<lparr>world = 0, slabData = None, marketConfig = None, trace = []\<rparr>"

definition cachedState :: "nat state" where
  "cachedState =
     \<lparr>world = 0, slabData = Some testSlab, marketConfig = Some testConfig, trace = []\<rparr>"

section \<open>Proofs\<close>

lemmas prog_defs = bindM_def returnM_def throwM_def liftE_def catchM_def call_def gets_def
  modify_def nonNull_def consoleWarn_def

lemma sendTransaction_try_frame:
  "sendTransaction_try env wallet tx s = (r, s') \<Longrightarrow>
   slabData s' = slabData s \<and> marketConfig s' = marketConfig s"
  unfolding sendTransaction_try_def
  by (auto simp: prog_defs split: prod.splits sum.splits option.splits)

lemma sendTransaction_frame:
  "sendTransaction env wallet tx s = (r, s') \<Longrightarrow>
   slabData s' = slabData s \<and> marketConfig s' = marketConfig s"
  unfolding sendTransaction_def catchM_def returnM_def
  by (auto split: prod.splits sum.splits dest: sendTransaction_try_frame)

lemma sendTransaction_try_submissions:
  "sendTransaction_try env wallet tx s = (r, s') \<Longrightarrow>
   submissions (trace s') \<le> submissions (trace s) + 1"
  unfolding sendTransaction_try_def
  by (auto simp: prog_defs submissions_def split: prod.splits sum.splits option.splits)




lemma sendTransaction_handles:
  "fst (sendTransaction_try env wallet tx s) = Inl e \<Longrightarrow>
   fst (sendTransaction env wallet tx s) =
     Inr \<lparr>signature = [], TxResult.error = Some (errorText e), hint = None\<rparr>"
  unfolding sendTransaction_def catchM_def returnM_def caught_def
  by (cases "sendTransaction_try env wallet tx s") simp


lemma try_send_throws:
  "getLatestBlockhash env (world s) = (Inr lb, w1) \<Longrightarrow>
   signTransaction wallet (prepared tx lb (publicKey wallet)) w1 = (Inr stx, w2) \<Longrightarrow>
   serialize env stx = Inr rawTx \<Longrightarrow>
   sendRawTransaction env rawTx w2 = (Inl e, w3) \<Longrightarrow>
   fst (sendTransaction_try env wallet tx s) = Inl e"
  unfolding sendTransaction_try_def by (simp add: prog_defs)

lemma try_confirm_throws:
  "getLatestBlockhash env (world s) = (Inr lb, w1) \<Longrightarrow>
   signTransaction wallet (prepared tx lb (publicKey wallet)) w1 = (Inr stx, w2) \<Longrightarrow>
   serialize env stx = Inr rawTx \<Longrightarrow>
   sendRawTransaction env rawTx w2 = (Inr sig, w3) \<Longrightarrow>
   confirmTransaction env sig (blockhash lb) (lastValidBlockHeight lb) w3 = (Inl e, w4) \<Longrightarrow>
   fst (sendTransaction_try env wallet tx s) = Inl e"
  unfolding sendTransaction_try_def by (simp add: prog_defs)




lemma sendTransaction_trace:
  "trace (snd (sendTransaction env wallet tx s)) = trace (snd (sendTransaction_try env wallet tx s))"
  unfolding sendTransaction_def catchM_def returnM_def
  by (auto split: prod.splits sum.splits)



lemmas test_defs = testEnv_def testWallet_def rejectingWallet_def freshState_def cachedState_def
  testAbi_def testClient_def testSlab_def testParse_def testConfig_def testAccounts_def
  testUndercollateralized_def


lemma try_trace_send_throws:
  "getLatestBlockhash env (world s) = (Inr lb, w1) \<Longrightarrow>
   signTransaction wallet (prepared tx lb (publicKey wallet)) w1 = (Inr stx, w2) \<Longrightarrow>
   serialize env stx = Inr rawTx \<Longrightarrow>
   sendRawTransaction env rawTx w2 = (Inl e, w3) \<Longrightarrow>
   trace (snd (sendTransaction_try env wallet tx s)) =
     trace s @ [GetLatestBlockhash, SignTransaction, SendRawTransaction rawTx]"
  unfolding sendTransaction_try_def by (simp add: prog_defs)

lemma try_trace_confirm_throws:
  "getLatestBlockhash env (world s) = (Inr lb, w1) \<Longrightarrow>
   signTransaction wallet (prepared tx lb (publicKey wallet)) w1 = (Inr stx, w2) \<Longrightarrow>
   serialize env stx = Inr rawTx \<Longrightarrow>
   sendRawTransaction env rawTx w2 = (Inr sig, w3) \<Longrightarrow>
   confirmTransaction env sig (blockhash lb) (lastValidBlockHeight lb) w3 = (Inl e, w4) \<Longrightarrow>
   trace (snd (sendTransaction_try env wallet tx s)) =
     trace s @ [GetLatestBlockhash, SignTransaction, SendRawTransaction rawTx,
                ConfirmTransaction sig]"
  unfolding sendTransaction_try_def by (simp add: prog_defs)

lemma try_trace_failed:
  "getLatestBlockhash env (world s) = (Inr lb, w1) \<Longrightarrow>
   signTransaction wallet (prepared tx lb (publicKey wallet)) w1 = (Inr stx, w2) \<Longrightarrow>
   serialize env stx = Inr rawTx \<Longrightarrow>
   sendRawTransaction env rawTx w2 = (Inr sig, w3) \<Longrightarrow>
   confirmTransaction env sig (blockhash lb) (lastValidBlockHeight lb) w3 = (Inr (Some err), w4) \<Longrightarrow>
   trace (snd (sendTransaction_try env wallet tx s)) =
     trace s @ [GetLatestBlockhash, SignTransaction, SendRawTransaction rawTx,
                ConfirmTransaction sig, GetTransaction sig]"
  unfolding sendTransaction_try_def
  by (auto simp: prog_defs split: prod.splits sum.splits option.splits)

lemma sendTransaction_failed_reports:
  "getLatestBlockhash env (world s) = (Inr lb, w1) \<Longrightarrow>
   signTransaction wallet (prepared tx lb (publicKey wallet)) w1 = (Inr stx, w2) \<Longrightarrow>
   serialize env stx = Inr rawTx \<Longrightarrow>
   sendRawTransaction env rawTx w2 = (Inr sig, w3) \<Longrightarrow>
   confirmTransaction env sig (blockhash lb) (lastValidBlockHeight lb) w3 = (Inr (Some err), w4) \<Longrightarrow>
   \<exists>r. fst (sendTransaction env wallet tx s) = Inr r \<and> TxResult.error r \<noteq> None"
  unfolding sendTransaction_def sendTransaction_try_def
  by (auto simp: prog_defs decodedFailure_def rawFailure_def caught_def
           split: prod.splits sum.splits option.splits)

lemma sendTransaction_submissions:
  "submissions (trace (snd (sendTransaction env wallet tx s))) \<le> submissions (trace s) + 1"
  unfolding sendTransaction_trace
  using sendTransaction_try_submissions [of env wallet tx s]
  by (cases "sendTransaction_try env wallet tx s") simp

text \<open>
  C6. One call of \<open>sendTransaction\<close> submits the signed transaction at most once. When
  the submission throws, when the confirmation throws and when the confirmation reports
  an execution error, the failure is in the returned result and the trace of the call
  shows the single submission and nothing after the failure but the fetch of the logs.
\<close>

theorem sendTransaction_submits_at_most_once:
  "submissions (trace (snd (sendTransaction env wallet tx s))) \<le> submissions (trace s) + 1
   \<and> (getLatestBlockhash env (world s) = (Inr lb, w1) \<longrightarrow>
        signTransaction wallet (prepared tx lb (publicKey wallet)) w1 = (Inr stx, w2) \<longrightarrow>
        serialize env stx = Inr rawTx \<longrightarrow>
        (sendRawTransaction env rawTx w2 = (Inl e, w3) \<longrightarrow>
           fst (sendTransaction env wallet tx s) =
             Inr \<lparr>signature = [], TxResult.error = Some (errorText e), hint = None\<rparr>
           \<and> trace (snd (sendTransaction env wallet tx s)) =
               trace s @ [GetLatestBlockhash, SignTransaction, SendRawTransaction rawTx])
        \<and> (sendRawTransaction env rawTx w2 = (Inr sig, w3) \<longrightarrow>
             (confirmTransaction env sig (blockhash lb) (lastValidBlockHeight lb) w3
                = (Inl e, w4) \<longrightarrow>
              fst (sendTransaction env wallet tx s) =
                Inr \<lparr>signature = [], TxResult.error = Some (errorText e), hint = None\<rparr>
              \<and> trace (snd (sendTransaction env wallet tx s)) =
                  trace s @ [GetLatestBlockhash, SignTransaction, SendRawTransaction rawTx,
                             ConfirmTransaction sig])
             \<and> (confirmTransaction env sig (blockhash lb) (lastValidBlockHeight lb) w3
                   = (Inr (Some err), w4) \<longrightarrow>
                 (\<exists>r. fst (sendTransaction env wallet tx s) = Inr r \<and> TxResult.error r \<noteq> None)
                 \<and> trace (snd (sendTransaction env wallet tx s)) =
                     trace s @ [GetLatestBlockhash, SignTransaction, SendRawTransaction rawTx,
                                ConfirmTransaction sig, GetTransaction sig])))"
proof -
  note r2 = try_send_throws [THEN sendTransaction_handles]
  note r3 = try_confirm_throws [THEN sendTransaction_handles]
  note t2 = try_trace_send_throws [folded sendTransaction_trace]
  note t3 = try_trace_confirm_throws [folded sendTransaction_trace]
  note t4 = try_trace_failed [folded sendTransaction_trace]
  show ?thesis
    by (intro conjI impI;
        (rule sendTransaction_submissions | (rule r2; assumption) | (rule r3; assumption)
         | (rule t2; assumption) | (rule t3; assumption) | (rule t4; assumption)
         | (rule sendTransaction_failed_reports; assumption)))
qed

theorem sendTransaction_submits_at_most_once_witness:
  "fst (sendTransaction offlineEnv testWallet Transaction_new freshState)
     = Inr \<lparr>signature = [], TxResult.error = Some ''failed to send'', hint = None\<rparr>
   \<and> trace (snd (sendTransaction offlineEnv testWallet Transaction_new freshState))
     = trace freshState @ [GetLatestBlockhash, SignTransaction, SendRawTransaction []]
   \<and> trace (snd (sendTransaction (testEnv testSlab [''0'']) testWallet Transaction_new freshState))
     = trace freshState @ [GetLatestBlockhash, SignTransaction, SendRawTransaction [],
          ConfirmTransaction ''0'', GetTransaction ''0'']"
proof -
  let ?lb = "\<lparr>blockhash = ''bh'', lastValidBlockHeight = 100\<rparr>"
  let ?stx = "prepared Transaction_new ?lb (publicKey testWallet)"
  let ?err = "TransactionError ''InstructionError''"
  have hex: "toString16 0 = ''0''"
    by (simp add: toString16.simps hexDigit_def)
  have bh: "getLatestBlockhash (testEnv testSlab fl) (world freshState) = (Inr ?lb, 0)"
    "getLatestBlockhash offlineEnv (world freshState) = (Inr ?lb, 0)"
    for fl by (simp_all add: test_defs offlineEnv_def)
  have sg: "signTransaction testWallet ?stx w = (Inr ?stx, w)" for w
    by (simp add: test_defs)
  have sr: "serialize (testEnv testSlab fl) ?stx = Inr []" "serialize offlineEnv ?stx = Inr []" for fl
    by (simp_all add: test_defs offlineEnv_def prepared_def Transaction_new_def)
  have sd: "sendRawTransaction (testEnv testSlab fl) [] 0 = (Inr ''0'', 1)"
    "sendRawTransaction offlineEnv [] 0 = (Inl (Error ''failed to send''), 0)" for fl
    by (simp_all add: test_defs offlineEnv_def hex)
  have cf: "confirmTransaction (testEnv testSlab [''0'']) ''0'' (blockhash ?lb)
              (lastValidBlockHeight ?lb) 1 = (Inr (Some ?err), 1)"
    by (simp add: test_defs)
  have a: "fst (sendTransaction offlineEnv testWallet Transaction_new freshState)
     = Inr \<lparr>signature = [], TxResult.error = Some ''failed to send'', hint = None\<rparr>
   \<and> trace (snd (sendTransaction offlineEnv testWallet Transaction_new freshState))
     = trace freshState @ [GetLatestBlockhash, SignTransaction, SendRawTransaction []]"
    using sendTransaction_submits_at_most_once
      [where env = offlineEnv and wallet = testWallet and tx = Transaction_new
         and s = freshState and lb = ?lb and ?w1.0 = 0 and stx = ?stx and ?w2.0 = 0
         and rawTx = "[]" and e = "Error ''failed to send''" and ?w3.0 = 0]
      bh sg sr sd
    by simp
  have b: "trace (snd (sendTransaction (testEnv testSlab [''0'']) testWallet Transaction_new freshState))
     = trace freshState @ [GetLatestBlockhash, SignTransaction, SendRawTransaction [],
          ConfirmTransaction ''0'', GetTransaction ''0'']"
    using sendTransaction_submits_at_most_once
      [where env = "testEnv testSlab [''0'']" and wallet = testWallet and tx = Transaction_new
         and s = freshState and lb = ?lb and ?w1.0 = 0 and stx = ?stx and ?w2.0 = 0
         and rawTx = "[]" and sig = "''0''" and ?w3.0 = 1 and ?w4.0 = 1 and err = ?err]
      bh sg sr sd cf
    by simp
  show ?thesis using a b by blast
qed


text \<open>
  C10. \<open>sendTransaction\<close> leaves both cache fields of the client as they were, whatever
  it returns.
\<close>

theorem sendTransaction_keeps_cache:
  "slabData (snd (sendTransaction env wallet tx s)) = slabData s
   \<and> marketConfig (snd (sendTransaction env wallet tx s)) = marketConfig s"
  using sendTransaction_frame [of env wallet tx s]
  by (cases "sendTransaction env wallet tx s") simp

subsection \<open>Fetching and the cache\<close>

lemma refreshSlab_returns:
  "fetchSlab env (slabPubkey cfg) (world s) = (Inr d, w') \<Longrightarrow>
   parseConfig env d = Inr c \<Longrightarrow>
   refreshSlab env cfg s =
     (Inr d, s\<lparr>world := w', trace := trace s @ [FetchSlab (slabPubkey cfg)],
              slabData := Some d, marketConfig := Some c\<rparr>)"
  unfolding refreshSlab_def by (simp add: prog_defs)

lemma refreshSlab_trace:
  "trace (snd (refreshSlab env cfg s)) = trace s @ [FetchSlab (slabPubkey cfg)]"
  unfolding refreshSlab_def
  by (auto simp: prog_defs split: prod.splits sum.splits)

lemma refreshSlab_fills:
  "refreshSlab env cfg s = (Inr d, s') \<Longrightarrow>
   slabData s' = Some d \<and> (\<exists>c. marketConfig s' = Some c \<and> parseConfig env d = Inr c)"
  unfolding refreshSlab_def
  by (auto simp: prog_defs split: prod.splits sum.splits)

lemma getMarketInfo_trace:
  "trace (snd (getMarketInfo env cfg s)) = trace s @ [FetchSlab (slabPubkey cfg)]"
  unfolding getMarketInfo_def
  using refreshSlab_trace [of env cfg s]
  by (auto simp: bindM_def liftE_def returnM_def split: prod.splits sum.splits)

lemma findUserAccount_trace:
  "trace (snd (findUserAccount env cfg key s)) = trace s @ [FetchSlab (slabPubkey cfg)]"
  unfolding findUserAccount_def
  using refreshSlab_trace [of env cfg s]
  by (auto simp: bindM_def liftE_def returnM_def split: prod.splits sum.splits)

lemma getAllPositions_trace:
  "trace (snd (getAllPositions env cfg s)) = trace s @ [FetchSlab (slabPubkey cfg)]"
  unfolding getAllPositions_def
  using refreshSlab_trace [of env cfg s]
  by (auto simp: bindM_def liftE_def returnM_def split: prod.splits sum.splits)

lemma getMarketConfig_cached:
  "marketConfig s = Some c \<Longrightarrow> getMarketConfig env cfg s = (Inr (Some c), s)"
  unfolding getMarketConfig_def by (simp add: prog_defs)

lemma getEngineState_cached:
  "slabData s = Some d \<Longrightarrow> getEngineState env cfg s = (parseEngine env d, s)"
  unfolding getEngineState_def by (simp add: prog_defs)

lemma getMarketConfig_lazy:
  "marketConfig s = None \<Longrightarrow>
   trace (snd (getMarketConfig env cfg s)) = trace s @ [FetchSlab (slabPubkey cfg)]"
  unfolding getMarketConfig_def
  using refreshSlab_trace [of env cfg s]
  by (auto simp: bindM_def gets_def returnM_def split: prod.splits sum.splits)

lemma getEngineState_lazy:
  "slabData s = None \<Longrightarrow>
   trace (snd (getEngineState env cfg s)) = trace s @ [FetchSlab (slabPubkey cfg)]"
  unfolding getEngineState_def
  using refreshSlab_trace [of env cfg s]
  by (auto simp: bindM_def gets_def returnM_def liftE_def nonNull_def throwM_def
           split: prod.splits sum.splits option.splits)

lemma getMarketConfig_again:
  "getMarketConfig env cfg s = (Inr r, s') \<Longrightarrow> getMarketConfig env cfg s' = (Inr r, s')"
proof (cases "marketConfig s")
  case (Some c)
  assume run: "getMarketConfig env cfg s = (Inr r, s')"
  from Some have "getMarketConfig env cfg s = (Inr (Some c), s)"
    by (rule getMarketConfig_cached)
  with run have "r = Some c" and "s' = s" by simp_all
  with Some show ?thesis by (simp add: getMarketConfig_cached)
next
  case None
  assume run: "getMarketConfig env cfg s = (Inr r, s')"
  obtain x t where rs: "refreshSlab env cfg s = (x, t)" by (cases "refreshSlab env cfg s")
  from run None rs obtain d where x: "x = Inr d" and t: "t = s'" and r: "r = marketConfig s'"
    unfolding getMarketConfig_def
    by (auto simp: bindM_def gets_def returnM_def split: sum.splits)
  from refreshSlab_fills [of env cfg s d s'] rs x t obtain c where "marketConfig s' = Some c"
    by auto
  with r show ?thesis by (simp add: getMarketConfig_cached)
qed

lemma getEngineState_again:
  "getEngineState env cfg s = (Inr r, s') \<Longrightarrow> getEngineState env cfg s' = (Inr r, s')"
proof (cases "slabData s")
  case (Some d)
  assume run: "getEngineState env cfg s = (Inr r, s')"
  from Some have "getEngineState env cfg s = (parseEngine env d, s)"
    by (rule getEngineState_cached)
  with run have "parseEngine env d = Inr r" and "s' = s" by simp_all
  with Some show ?thesis by (simp add: getEngineState_cached)
next
  case None
  assume run: "getEngineState env cfg s = (Inr r, s')"
  obtain x t where rs: "refreshSlab env cfg s = (x, t)" by (cases "refreshSlab env cfg s")
  from run None rs obtain d where x: "x = Inr d" and t: "t = s'"
    unfolding getEngineState_def
    by (auto simp: bindM_def gets_def returnM_def liftE_def nonNull_def throwM_def
             split: sum.splits option.splits)
  from refreshSlab_fills [of env cfg s d s'] rs x t have sd: "slabData s' = Some d"
    by auto
  from run None rs x t sd have "parseEngine env d = Inr r"
    unfolding getEngineState_def
    by (auto simp: bindM_def gets_def returnM_def liftE_def nonNull_def throwM_def
             split: sum.splits option.splits)
  with sd show ?thesis by (simp add: getEngineState_cached)
qed

text \<open>
  With both cache fields filled, \<open>findUserAccount\<close>, \<open>getMarketInfo\<close> and
  \<open>getAllPositions\<close> still fetch the slab.
\<close>

theorem read_accessors_refetch_counterexample:
  "slabData cachedState = Some testSlab
   \<and> marketConfig cachedState = Some testConfig
   \<and> trace cachedState = []
   \<and> trace (snd (findUserAccount (testEnv testSlab []) testClient ''alice'' cachedState))
       = [FetchSlab ''slab'']
   \<and> trace (snd (getMarketInfo (testEnv testSlab []) testClient cachedState))
       = [FetchSlab ''slab'']
   \<and> trace (snd (getAllPositions (testEnv testSlab []) testClient cachedState))
       = [FetchSlab ''slab'']"
  by (simp add: findUserAccount_trace getMarketInfo_trace getAllPositions_trace
        cachedState_def testClient_def)

text \<open>
  C3, as the code has it. \<open>getMarketConfig\<close> and \<open>getEngineState\<close> fetch lazily: with
  their cache field filled they return from the cache and leave the state, trace
  included, as it is; with the field empty they fetch once; and after a call that
  returned, the next call returns the same value without fetching.
  \<open>getMarketInfo\<close>, \<open>findUserAccount\<close> and \<open>getAllPositions\<close> fetch the slab on every call,
  cache or no cache.
\<close>

theorem read_accessors_fetching:
  "(marketConfig s = Some c \<longrightarrow> getMarketConfig env cfg s = (Inr (Some c), s))
   \<and> (slabData s = Some d \<longrightarrow> getEngineState env cfg s = (parseEngine env d, s))
   \<and> (marketConfig s = None \<longrightarrow>
        trace (snd (getMarketConfig env cfg s)) = trace s @ [FetchSlab (slabPubkey cfg)])
   \<and> (slabData s = None \<longrightarrow>
        trace (snd (getEngineState env cfg s)) = trace s @ [FetchSlab (slabPubkey cfg)])
   \<and> (getMarketConfig env cfg s = (Inr r, s') \<longrightarrow> getMarketConfig env cfg s' = (Inr r, s'))
   \<and> (getEngineState env cfg s = (Inr g, s'') \<longrightarrow> getEngineState env cfg s'' = (Inr g, s''))
   \<and> trace (snd (getMarketInfo env cfg s)) = trace s @ [FetchSlab (slabPubkey cfg)]
   \<and> trace (snd (findUserAccount env cfg key s)) = trace s @ [FetchSlab (slabPubkey cfg)]
   \<and> trace (snd (getAllPositions env cfg s)) = trace s @ [FetchSlab (slabPubkey cfg)]"
  by (intro conjI impI;
      (erule getMarketConfig_cached | erule getEngineState_cached | erule getMarketConfig_lazy
       | erule getEngineState_lazy | erule getMarketConfig_again | erule getEngineState_again
       | rule getMarketInfo_trace | rule findUserAccount_trace | rule getAllPositions_trace))

theorem read_accessors_fetching_witness:
  "getMarketConfig (testEnv testSlab []) testClient cachedState = (Inr (Some testConfig), cachedState)
   \<and> getEngineState (testEnv testSlab []) testClient cachedState = (Inr (), cachedState)
   \<and> trace (snd (getMarketConfig (testEnv testSlab []) testClient freshState))
       = [FetchSlab ''slab'']
   \<and> trace (snd (getEngineState (testEnv testSlab []) testClient freshState))
       = [FetchSlab ''slab'']"
proof -
  have mc: "marketConfig cachedState = Some testConfig" "slabData cachedState = Some testSlab"
    "marketConfig freshState = None" "slabData freshState = None" "trace freshState = []"
    by (simp_all add: cachedState_def freshState_def)
  have pe: "parseEngine (testEnv testSlab []) testSlab = Inr ()"
    by (simp add: testEnv_def testParse_def testSlab_def)
  have sp: "slabPubkey testClient = ''slab''" by (simp add: testClient_def)
  note cached = read_accessors_fetching
      [where env = "testEnv testSlab []" and cfg = testClient and s = cachedState
         and c = testConfig and d = testSlab and r = None and s' = cachedState
         and g = "()" and s'' = cachedState and key = "[]"]
  note fresh = read_accessors_fetching
      [where env = "testEnv testSlab []" and cfg = testClient and s = freshState
         and c = testConfig and d = testSlab and r = None and s' = cachedState
         and g = "()" and s'' = cachedState and key = "[]"]
  from cached mc(1) have a:
    "getMarketConfig (testEnv testSlab []) testClient cachedState
       = (Inr (Some testConfig), cachedState)"
    by blast
  from cached mc(2) have "getEngineState (testEnv testSlab []) testClient cachedState
       = (parseEngine (testEnv testSlab []) testSlab, cachedState)"
    by blast
  with pe have b: "getEngineState (testEnv testSlab []) testClient cachedState
       = (Inr (), cachedState)"
    by simp
  from fresh mc(3) have "trace (snd (getMarketConfig (testEnv testSlab []) testClient freshState))
       = trace freshState @ [FetchSlab (slabPubkey testClient)]"
    by blast
  with mc(5) sp have c: "trace (snd (getMarketConfig (testEnv testSlab []) testClient freshState))
       = [FetchSlab ''slab'']"
    by simp
  from fresh mc(4) have "trace (snd (getEngineState (testEnv testSlab []) testClient freshState))
       = trace freshState @ [FetchSlab (slabPubkey testClient)]"
    by blast
  with mc(5) sp have d: "trace (snd (getEngineState (testEnv testSlab []) testClient freshState))
       = [FetchSlab ''slab'']"
    by simp
  show ?thesis using a b c d by blast
qed

lemma find_first:
  "find P xs = Some x \<Longrightarrow> \<exists>pre post. xs = pre @ x # post \<and> P x \<and> (\<forall>a\<in>set pre. \<not> P a)"
proof (induction xs)
  case Nil
  then show ?case by simp
next
  case (Cons y ys)
  show ?case
  proof (cases "P y")
    case True
    with Cons.prems have "x = y" by simp
    with True have "y # ys = [] @ x # ys \<and> P x \<and> (\<forall>a\<in>set []. \<not> P a)" by simp
    then show ?thesis by blast
  next
    case False
    with Cons.prems have "find P ys = Some x" by simp
    from Cons.IH [OF this] obtain pre post
      where "ys = pre @ x # post" "P x" "\<forall>a\<in>set pre. \<not> P a" by blast
    with False have "y # ys = (y # pre) @ x # post \<and> P x \<and> (\<forall>a\<in>set (y # pre). \<not> P a)"
      by simp
    then show ?thesis by blast
  qed
qed

lemma find_lowest:
  assumes "find P xs = Some x" and "sorted (map f xs)" and "a \<in> set xs" and "P a"
  shows "f x \<le> (f a :: nat)"
proof -
  from find_first [OF assms(1)] obtain pre post
    where xs: "xs = pre @ x # post" and pre: "\<forall>a\<in>set pre. \<not> P a" by blast
  from assms(3,4) pre xs have "a = x \<or> a \<in> set post" by auto
  moreover from assms(2) xs have "\<forall>b\<in>set post. f x \<le> f b"
    by (simp add: sorted_append)
  ultimately show ?thesis by auto
qed

lemma findUserAccount_returns:
  "fetchSlab env (slabPubkey cfg) (world s) = (Inr d, w') \<Longrightarrow>
   parseConfig env d = Inr c \<Longrightarrow>
   parseAllAccounts env d = Inr accs \<Longrightarrow>
   fst (findUserAccount env cfg key s) = Inr (find (\<lambda>a. Account.owner (account a) = key) accs)"
  unfolding findUserAccount_def
  by (simp add: refreshSlab_returns bindM_def liftE_def returnM_def)

text \<open>
  C9. \<open>findUserAccount\<close> fetches the slab again on every call. When the fetch and the
  parsers succeed it returns the first entry of \<open>parseAllAccounts\<close> whose owner is the
  key, whatever the kind of the account, and \<open>null\<close> when no entry is owned by the key;
  when \<open>parseAllAccounts\<close> lists the slots by ascending index, that entry has the lowest
  index among the key's slots.
\<close>

theorem findUserAccount_first_owned_slot:
  "fetchSlab env (slabPubkey cfg) (world s) = (Inr d, w') \<Longrightarrow>
   parseConfig env d = Inr c \<Longrightarrow>
   parseAllAccounts env d = Inr accs \<Longrightarrow>
   trace (snd (findUserAccount env cfg key s)) = trace s @ [FetchSlab (slabPubkey cfg)]
   \<and> (\<exists>found. fst (findUserAccount env cfg key s) = Inr found
        \<and> (case found of
              None \<Rightarrow> \<forall>a\<in>set accs. Account.owner (account a) \<noteq> key
            | Some f \<Rightarrow>
                (\<exists>pre post. accs = pre @ f # post
                   \<and> Account.owner (account f) = key
                   \<and> (\<forall>a\<in>set pre. Account.owner (account a) \<noteq> key))
                \<and> (sorted (map idx accs) \<longrightarrow>
                     (\<forall>a\<in>set accs. Account.owner (account a) = key \<longrightarrow> idx f \<le> idx a))))"
proof (intro conjI)
  assume h: "fetchSlab env (slabPubkey cfg) (world s) = (Inr d, w')"
    "parseConfig env d = Inr c" "parseAllAccounts env d = Inr accs"
  let ?P = "\<lambda>a. Account.owner (account a) = key"
  show "trace (snd (findUserAccount env cfg key s)) = trace s @ [FetchSlab (slabPubkey cfg)]"
    by (rule findUserAccount_trace)
  have r: "fst (findUserAccount env cfg key s) = Inr (find ?P accs)"
    using h by (rule findUserAccount_returns)
  have "case find ?P accs of
          None \<Rightarrow> \<forall>a\<in>set accs. Account.owner (account a) \<noteq> key
        | Some f \<Rightarrow>
            (\<exists>pre post. accs = pre @ f # post
               \<and> Account.owner (account f) = key
               \<and> (\<forall>a\<in>set pre. Account.owner (account a) \<noteq> key))
            \<and> (sorted (map idx accs) \<longrightarrow>
                 (\<forall>a\<in>set accs. Account.owner (account a) = key \<longrightarrow> idx f \<le> idx a))"
  proof (cases "find ?P accs")
    case None
    then have "\<forall>a\<in>set accs. Account.owner (account a) \<noteq> key"
      by (simp add: find_None_iff)
    then show ?thesis unfolding None option.case .
  next
    case (Some f)
    from find_first [OF Some] have "\<exists>pre post. accs = pre @ f # post
               \<and> Account.owner (account f) = key
               \<and> (\<forall>a\<in>set pre. Account.owner (account a) \<noteq> key)" .
    moreover have "sorted (map idx accs) \<longrightarrow>
                 (\<forall>a\<in>set accs. Account.owner (account a) = key \<longrightarrow> idx f \<le> idx a)"
      using find_lowest [where P = ?P and f = idx, OF Some] by blast
    ultimately show ?thesis using Some by simp
  qed
  with r show "\<exists>found. fst (findUserAccount env cfg key s) = Inr found
        \<and> (case found of
              None \<Rightarrow> \<forall>a\<in>set accs. Account.owner (account a) \<noteq> key
            | Some f \<Rightarrow>
                (\<exists>pre post. accs = pre @ f # post
                   \<and> Account.owner (account f) = key
                   \<and> (\<forall>a\<in>set pre. Account.owner (account a) \<noteq> key))
                \<and> (sorted (map idx accs) \<longrightarrow>
                     (\<forall>a\<in>set accs. Account.owner (account a) = key \<longrightarrow> idx f \<le> idx a)))"
    by blast
qed


theorem findUserAccount_first_owned_slot_witness:
  "trace (snd (findUserAccount (testEnv testSlab []) testClient ''alice'' freshState))
     = [FetchSlab ''slab'']
   \<and> (\<exists>f. fst (findUserAccount (testEnv testSlab []) testClient ''alice'' freshState)
            = Inr (Some f) \<and> idx f = 1)"
proof -
  let ?env = "testEnv testSlab []"
  have h1: "fetchSlab ?env (slabPubkey testClient) (world freshState) = (Inr testSlab, 0)"
    by (simp add: testEnv_def freshState_def)
  have h2: "parseConfig ?env testSlab = Inr testConfig"
    by (simp add: testEnv_def testParse_def testSlab_def)
  have h3: "parseAllAccounts ?env testSlab = Inr testAccounts"
    by (simp add: testEnv_def testParse_def testSlab_def)
  note t = findUserAccount_first_owned_slot [OF h1 h2 h3, of "''alice''"]
  from t have a: "trace (snd (findUserAccount ?env testClient ''alice'' freshState))
     = [FetchSlab ''slab'']"
    by (simp add: freshState_def testClient_def)
  from t obtain found where r: "fst (findUserAccount ?env testClient ''alice'' freshState) = Inr found"
    and p: "case found of
              None \<Rightarrow> \<forall>a\<in>set testAccounts. Account.owner (account a) \<noteq> ''alice''
            | Some f \<Rightarrow>
                (\<exists>pre post. testAccounts = pre @ f # post
                   \<and> Account.owner (account f) = ''alice''
                   \<and> (\<forall>a\<in>set pre. Account.owner (account a) \<noteq> ''alice''))
                \<and> (sorted (map idx testAccounts) \<longrightarrow>
                     (\<forall>a\<in>set testAccounts. Account.owner (account a) = ''alice'' \<longrightarrow> idx f \<le> idx a))"
    by blast
  have srt: "sorted (map idx testAccounts)" by (simp add: testAccounts_def)
  have "\<exists>f. found = Some f \<and> idx f = 1"
  proof (cases found)
    case None
    with p show ?thesis by (simp add: testAccounts_def)
  next
    case (Some f)
    with p srt have low: "\<forall>a\<in>set testAccounts. Account.owner (account a) = ''alice'' \<longrightarrow> idx f \<le> idx a"
      and own: "Account.owner (account f) = ''alice''"
      and mem: "\<exists>pre post. testAccounts = pre @ f # post"
      by auto
    from mem obtain pre post where "testAccounts = pre @ f # post" by blast
    then have "set testAccounts = set (pre @ f # post)" by simp
    then have "f \<in> set testAccounts" by simp
    with own have "idx f = 1 \<or> idx f = 4" by (auto simp: testAccounts_def)
    moreover from low have "idx f \<le> 1" by (simp add: testAccounts_def)
    ultimately show ?thesis using Some by simp
  qed
  with r a show ?thesis by blast
qed

lemma refreshSlab_coherent_on_return:
  "refreshSlab env cfg s = (Inr d, s') \<Longrightarrow> cacheCoherent env s'"
  using refreshSlab_fills [of env cfg s d s'] by (auto simp: cacheCoherent_def)

text \<open>
  C7 on the code: a fetched buffer that \<open>parseConfig\<close> rejects is stored in \<open>slabData\<close>
  before the parser throws, and \<open>marketConfig\<close> keeps what it had. From a coherent
  cache the fields end up incoherent (new buffer, configuration of the old one); from
  the initial state \<open>slabData\<close> is set and \<open>marketConfig\<close> is still \<open>null\<close>.
\<close>

theorem refreshSlab_partial_update:
  "cacheCoherent (testEnv [1, 2, 3] []) cachedState
   \<and> fst (refreshSlab (testEnv [1, 2, 3] []) testClient cachedState) = Inl (Error ''MalformedSlab'')
   \<and> slabData (snd (refreshSlab (testEnv [1, 2, 3] []) testClient cachedState)) = Some [1, 2, 3]
   \<and> marketConfig (snd (refreshSlab (testEnv [1, 2, 3] []) testClient cachedState))
       = Some testConfig
   \<and> \<not> cacheCoherent (testEnv [1, 2, 3] [])
          (snd (refreshSlab (testEnv [1, 2, 3] []) testClient cachedState))
   \<and> slabData (snd (refreshSlab (testEnv [1, 2, 3] []) testClient freshState)) = Some [1, 2, 3]
   \<and> marketConfig (snd (refreshSlab (testEnv [1, 2, 3] []) testClient freshState)) = None"
  by (simp add: refreshSlab_def prog_defs cacheCoherent_def testEnv_def testParse_def
        cachedState_def freshState_def testSlab_def testClient_def)

subsection \<open>Positions\<close>

lemma bigintDiv_nonneg:
  "0 \<le> a \<Longrightarrow> 0 < b \<Longrightarrow> bigintDiv a b = a div b"
  by (cases "a = 0") (simp_all add: bigintDiv_def)

lemma abs128_abs: "abs128 v = \<bar>v\<bar>"
  by (simp add: abs128_def)

lemma notionalOf_positive:
  "0 < notionalOf a \<longleftrightarrow> 0 < \<bar>Account.positionSize a\<bar> * Account.entryPrice a div 1000000"
proof (cases "0 < Account.entryPrice a")
  case True
  then have "0 \<le> \<bar>Account.positionSize a\<bar> * Account.entryPrice a" by simp
  with True show ?thesis by (simp add: notionalOf_def abs128_abs bigintDiv_nonneg)
next
  case False
  then have "\<bar>Account.positionSize a\<bar> * Account.entryPrice a \<le> 0"
    by (simp add: mult_nonneg_nonpos)
  then have "\<bar>Account.positionSize a\<bar> * Account.entryPrice a div 1000000 \<le> 0" by arith
  with False show ?thesis by (simp add: notionalOf_def)
qed

lemma notionalOf_value:
  "0 < notionalOf a \<Longrightarrow>
   notionalOf a = \<bar>Account.positionSize a\<bar> * Account.entryPrice a div 1000000"
  by (cases "0 < Account.entryPrice a") (simp_all add: notionalOf_def abs128_abs bigintDiv_nonneg)

lemma leverageOf_formula:
  "leverageOf a =
     (if 0 < Account.capital a
         \<and> 0 < \<bar>Account.positionSize a\<bar> * Account.entryPrice a div 1000000
      then fdiv (Number (\<bar>Account.positionSize a\<bar> * Account.entryPrice a div 1000000))
             (Number (Account.capital a))
      else 0)"
  using notionalOf_positive [of a] notionalOf_value [of a]
  by (auto simp: leverageOf_def)

lemma leverage_two: "fdiv (Number (\<bar>2000000\<bar> * 1000000 div 1000000)) (Number 1000000) = 2"
  by code_simp

lemma getAllPositions_returns:
  "fetchSlab env (slabPubkey cfg) (world s) = (Inr d, w') \<Longrightarrow>
   parseConfig env d = Inr c \<Longrightarrow>
   parseAllAccounts env d = Inr accs \<Longrightarrow>
   parseEngine env d = Inr eng \<Longrightarrow>
   fst (getAllPositions env cfg s) =
     Inr (map toPositionInfo (filter (\<lambda>a. Account.positionSize (account a) \<noteq> 0) accs))"
  unfolding getAllPositions_def
  by (simp add: refreshSlab_returns bindM_def liftE_def returnM_def)

lemma toPositionInfo_leverage:
  "leverage (toPositionInfo a) =
     (if 0 < capital (toPositionInfo a)
         \<and> 0 < \<bar>positionSize (toPositionInfo a)\<bar> * entryPrice (toPositionInfo a) div 1000000
      then fdiv (Number (\<bar>positionSize (toPositionInfo a)\<bar> * entryPrice (toPositionInfo a)
                          div 1000000))
             (Number (capital (toPositionInfo a)))
      else 0)"
  by (simp add: toPositionInfo_def leverageOf_formula)

text \<open>
  C4. When the fetch and the parsers succeed, \<open>getAllPositions\<close> returns one position
  for each entry of \<open>parseAllAccounts\<close> whose \<open>positionSize\<close> is not zero, in the same
  order and with the entry's index and amounts, and none for the others. The leverage
  of a returned position is the double-precision quotient of its notional
  \<open>|positionSize| * entryPrice / 1_000_000\<close> (integer division) and its capital when
  both are positive, and 0 otherwise; with capital 1_000_000, size 2_000_000 and entry
  price 1_000_000 it is 2.
\<close>

theorem getAllPositions_open_positions:
  "fetchSlab env (slabPubkey cfg) (world s) = (Inr d, w') \<Longrightarrow>
   parseConfig env d = Inr c \<Longrightarrow>
   parseAllAccounts env d = Inr accs \<Longrightarrow>
   parseEngine env d = Inr eng \<Longrightarrow>
   \<exists>ps. fst (getAllPositions env cfg s) = Inr ps
     \<and> list_all2
          (\<lambda>p a. index p = idx a
                 \<and> owner p = Account.owner (account a)
                 \<and> capital p = Account.capital (account a)
                 \<and> pnl p = Account.pnl (account a)
                 \<and> positionSize p = Account.positionSize (account a)
                 \<and> entryPrice p = Account.entryPrice (account a))
          ps (filter (\<lambda>a. Account.positionSize (account a) \<noteq> 0) accs)
     \<and> (\<forall>p\<in>set ps.
          positionSize p \<noteq> 0
          \<and> leverage p =
              (if 0 < capital p \<and> 0 < \<bar>positionSize p\<bar> * entryPrice p div 1000000
               then fdiv (Number (\<bar>positionSize p\<bar> * entryPrice p div 1000000))
                      (Number (capital p))
               else 0)
          \<and> (capital p = 1000000 \<and> positionSize p = 2000000 \<and> entryPrice p = 1000000
               \<longrightarrow> leverage p = 2))"
proof -
  assume h: "fetchSlab env (slabPubkey cfg) (world s) = (Inr d, w')"
    "parseConfig env d = Inr c" "parseAllAccounts env d = Inr accs" "parseEngine env d = Inr eng"
  let ?open = "filter (\<lambda>a. Account.positionSize (account a) \<noteq> 0) accs"
  let ?ps = "map toPositionInfo ?open"
  have r: "fst (getAllPositions env cfg s) = Inr ?ps"
    using h by (rule getAllPositions_returns)
  have fields: "list_all2
          (\<lambda>p a. index p = idx a
                 \<and> owner p = Account.owner (account a)
                 \<and> capital p = Account.capital (account a)
                 \<and> pnl p = Account.pnl (account a)
                 \<and> positionSize p = Account.positionSize (account a)
                 \<and> entryPrice p = Account.entryPrice (account a))
          ?ps ?open"
    by (simp add: list_all2_map1 list_all2_same toPositionInfo_def)
  have lev: "positionSize p \<noteq> 0
          \<and> leverage p =
              (if 0 < capital p \<and> 0 < \<bar>positionSize p\<bar> * entryPrice p div 1000000
               then fdiv (Number (\<bar>positionSize p\<bar> * entryPrice p div 1000000))
                      (Number (capital p))
               else 0)
          \<and> (capital p = 1000000 \<and> positionSize p = 2000000 \<and> entryPrice p = 1000000
               \<longrightarrow> leverage p = 2)" if "p \<in> set ?ps" for p
  proof -
    from that obtain a where a: "p = toPositionInfo a"
      and nz: "Account.positionSize (account a) \<noteq> 0" by auto
    from a nz have 1: "positionSize p \<noteq> 0" by (simp add: toPositionInfo_def)
    from a have 2: "leverage p =
              (if 0 < capital p \<and> 0 < \<bar>positionSize p\<bar> * entryPrice p div 1000000
               then fdiv (Number (\<bar>positionSize p\<bar> * entryPrice p div 1000000))
                      (Number (capital p))
               else 0)"
      by (simp only: toPositionInfo_leverage)
    have 3: "leverage p = 2"
      if "capital p = 1000000 \<and> positionSize p = 2000000 \<and> entryPrice p = 1000000"
      using that 2 leverage_two by simp
    from 1 2 3 show ?thesis by blast
  qed
  from r fields lev show ?thesis by blast
qed

theorem getAllPositions_open_positions_witness:
  "\<exists>ps. fst (getAllPositions (testEnv testSlab []) testClient freshState) = Inr ps
     \<and> map index ps = [0, 1, 4]
     \<and> leverage (ps ! 1) = 2"
proof -
  let ?env = "testEnv testSlab []"
  have h1: "fetchSlab ?env (slabPubkey testClient) (world freshState) = (Inr testSlab, 0)"
    by (simp add: testEnv_def freshState_def)
  have h2: "parseConfig ?env testSlab = Inr testConfig"
    by (simp add: testEnv_def testParse_def testSlab_def)
  have h3: "parseAllAccounts ?env testSlab = Inr testAccounts"
    by (simp add: testEnv_def testParse_def testSlab_def)
  have h4: "parseEngine ?env testSlab = Inr ()"
    by (simp add: testEnv_def testParse_def testSlab_def)
  from getAllPositions_open_positions [OF h1 h2 h3 h4]
  obtain ps where r: "fst (getAllPositions ?env testClient freshState) = Inr ps"
    and f: "list_all2
          (\<lambda>p a. index p = idx a
                 \<and> owner p = Account.owner (account a)
                 \<and> capital p = Account.capital (account a)
                 \<and> pnl p = Account.pnl (account a)
                 \<and> positionSize p = Account.positionSize (account a)
                 \<and> entryPrice p = Account.entryPrice (account a))
          ps (filter (\<lambda>a. Account.positionSize (account a) \<noteq> 0) testAccounts)"
    and l: "\<forall>p\<in>set ps. capital p = 1000000 \<and> positionSize p = 2000000 \<and> entryPrice p = 1000000
               \<longrightarrow> leverage p = 2"
    by blast
  from f obtain p0 p1 p2 where ps: "ps = [p0, p1, p2]"
    and i: "index p0 = 0" "index p1 = 1" "index p2 = 4"
    and a: "capital p1 = 1000000" "positionSize p1 = 2000000" "entryPrice p1 = 1000000"
    by (auto simp: testAccounts_def list_all2_Cons2)
  from l ps a have "leverage p1 = 2" by simp
  with r ps i show ?thesis by simp
qed

subsection \<open>Builders\<close>

lemma bindM_fst:
  "fst (bindM m f s) = Inr y \<Longrightarrow> \<exists>x s1. m s = (Inr x, s1) \<and> fst (f x s1) = Inr y"
  by (auto simp: bindM_def split: prod.splits sum.splits)

lemma liftE_run: "liftE r s = (Inr x, s1) \<Longrightarrow> r = Inr x"
  by (simp add: liftE_def)

lemma buildTransaction_instructions:
  "fst (buildTransaction ix s) = Inr tx \<Longrightarrow> instructions tx = [SetComputeUnitLimit 400000, ix]"
  by (auto simp: buildTransaction_def returnM_def Transaction_add_def Transaction_new_def)

lemma isOperationTx_intro:
  "encoded = Inr ixData \<Longrightarrow>
   instructions tx =
     [SetComputeUnitLimit 400000, TransactionInstruction (PercolatorConfig.programId cfg) keys ixData]
   \<Longrightarrow> isOperationTx cfg encoded tx"
  by (simp add: isOperationTx_def)

lemma buildInitUserTx_shape:
  "fst (buildInitUserTx env abi cfg wallet feePayment s) = Inr tx \<Longrightarrow>
   isOperationTx cfg (encodeInitUser abi (orDefault feePayment 1000000)) tx"
  unfolding buildInitUserTx_def
  by (auto dest!: bindM_fst buildTransaction_instructions liftE_run intro: isOperationTx_intro)

lemma buildDepositTx_shape:
  "fst (buildDepositTx env abi cfg wallet userIdx amount s) = Inr tx \<Longrightarrow>
   isOperationTx cfg (encodeDepositCollateral abi userIdx amount) tx"
  unfolding buildDepositTx_def
  by (auto dest!: bindM_fst buildTransaction_instructions liftE_run intro: isOperationTx_intro)

lemma buildWithdrawTx_shape:
  "fst (buildWithdrawTx env abi cfg wallet userIdx amount s) = Inr tx \<Longrightarrow>
   isOperationTx cfg (encodeWithdrawCollateral abi userIdx amount) tx"
  unfolding buildWithdrawTx_def
  by (auto dest!: bindM_fst buildTransaction_instructions liftE_run intro: isOperationTx_intro)

lemma buildTradeCpiTx_shape:
  "fst (buildTradeCpiTx env abi cfg wallet userIdx lpIdx sz matcher matcherCtx s) = Inr tx \<Longrightarrow>
   isOperationTx cfg (encodeTradeCpi abi lpIdx userIdx sz) tx"
  unfolding buildTradeCpiTx_def
  by (auto dest!: bindM_fst buildTransaction_instructions liftE_run intro: isOperationTx_intro)

lemma buildTradeNoCpiTx_shape:
  "fst (buildTradeNoCpiTx env abi cfg wallet userIdx lpIdx sz lpOwnerWallet s) = Inr tx \<Longrightarrow>
   isOperationTx cfg (encodeTradeNoCpi abi lpIdx userIdx sz) tx"
  unfolding buildTradeNoCpiTx_def
  by (auto dest!: bindM_fst buildTransaction_instructions liftE_run intro: isOperationTx_intro)

lemma buildKeeperCrankTx_shape:
  "fst (buildKeeperCrankTx env abi cfg wallet callerIdx s) = Inr tx \<Longrightarrow>
   isOperationTx cfg (encodeKeeperCrank abi (orDefault callerIdx 0) False) tx"
  unfolding buildKeeperCrankTx_def
  by (auto dest!: bindM_fst buildTransaction_instructions liftE_run intro: isOperationTx_intro)

lemma buildCloseAccountTx_shape:
  "fst (buildCloseAccountTx env abi cfg wallet userIdx s) = Inr tx \<Longrightarrow>
   isOperationTx cfg (encodeCloseAccount abi userIdx) tx"
  unfolding buildCloseAccountTx_def
  by (auto dest!: bindM_fst buildTransaction_instructions liftE_run intro: isOperationTx_intro)

lemma buildInitMarketTx_shape:
  "fst (buildInitMarketTx abi cfg wallet slab mint vault dummyAta marketArgs s) = Inr tx \<Longrightarrow>
   isOperationTx cfg (encodeInitMarket abi marketArgs) tx"
  unfolding buildInitMarketTx_def
  by (auto dest!: bindM_fst buildTransaction_instructions liftE_run intro: isOperationTx_intro)

lemma buildInitLpTx_shape:
  "fst (buildInitLpTx abi cfg wallet slab mint vault matcher ctx feePayment s) = Inr tx \<Longrightarrow>
   isOperationTx cfg (encodeInitLP abi matcher ctx (orDefault feePayment 1000000)) tx"
  unfolding buildInitLpTx_def
  by (auto dest!: bindM_fst buildTransaction_instructions liftE_run intro: isOperationTx_intro)

lemma buildSetOracleAuthorityTx_shape:
  "fst (buildSetOracleAuthorityTx abi cfg wallet slab newAuthority s) = Inr tx \<Longrightarrow>
   isOperationTx cfg (encodeSetOracleAuthority abi newAuthority) tx"
  unfolding buildSetOracleAuthorityTx_def
  by (auto dest!: bindM_fst buildTransaction_instructions liftE_run intro: isOperationTx_intro)

lemma buildPushOraclePriceTx_shape:
  "fst (buildPushOraclePriceTx abi cfg wallet slab price timestamp s) = Inr tx \<Longrightarrow>
   isOperationTx cfg (encodePushOraclePrice abi price timestamp) tx"
  unfolding buildPushOraclePriceTx_def
  by (auto dest!: bindM_fst buildTransaction_instructions liftE_run intro: isOperationTx_intro)

lemma buildTopUpInsuranceTx_shape:
  "fst (buildTopUpInsuranceTx abi cfg wallet slab mint vault amount s) = Inr tx \<Longrightarrow>
   isOperationTx cfg (encodeTopUpInsurance abi amount) tx"
  unfolding buildTopUpInsuranceTx_def
  by (auto dest!: bindM_fst buildTransaction_instructions liftE_run intro: isOperationTx_intro)

text \<open>
  C5. Whenever one of the twelve builders returns a transaction, the transaction holds
  exactly two instructions: the compute-budget instruction that sets the limit to
  400,000 units, then the instruction of the client's program whose data is what the
  operation's encoder produced.
\<close>

theorem builders_prepend_compute_budget:
  "(fst (buildInitUserTx env abi cfg wallet feePayment s) = Inr tx \<longrightarrow>
      isOperationTx cfg (encodeInitUser abi (orDefault feePayment 1000000)) tx)
   \<and> (fst (buildDepositTx env abi cfg wallet userIdx amount s) = Inr tx \<longrightarrow>
      isOperationTx cfg (encodeDepositCollateral abi userIdx amount) tx)
   \<and> (fst (buildWithdrawTx env abi cfg wallet userIdx amount s) = Inr tx \<longrightarrow>
      isOperationTx cfg (encodeWithdrawCollateral abi userIdx amount) tx)
   \<and> (fst (buildTradeCpiTx env abi cfg wallet userIdx lpIdx sz matcher matcherCtx s) = Inr tx \<longrightarrow>
      isOperationTx cfg (encodeTradeCpi abi lpIdx userIdx sz) tx)
   \<and> (fst (buildTradeNoCpiTx env abi cfg wallet userIdx lpIdx sz lpOwnerWallet s) = Inr tx \<longrightarrow>
      isOperationTx cfg (encodeTradeNoCpi abi lpIdx userIdx sz) tx)
   \<and> (fst (buildKeeperCrankTx env abi cfg wallet callerIdx s) = Inr tx \<longrightarrow>
      isOperationTx cfg (encodeKeeperCrank abi (orDefault callerIdx 0) False) tx)
   \<and> (fst (buildCloseAccountTx env abi cfg wallet userIdx s) = Inr tx \<longrightarrow>
      isOperationTx cfg (encodeCloseAccount abi userIdx) tx)
   \<and> (fst (buildInitMarketTx abi cfg wallet slab mint vault dummyAta marketArgs s) = Inr tx \<longrightarrow>
      isOperationTx cfg (encodeInitMarket abi marketArgs) tx)
   \<and> (fst (buildInitLpTx abi cfg wallet slab mint vault matcher ctx feePayment s) = Inr tx \<longrightarrow>
      isOperationTx cfg (encodeInitLP abi matcher ctx (orDefault feePayment 1000000)) tx)
   \<and> (fst (buildSetOracleAuthorityTx abi cfg wallet slab newAuthority s) = Inr tx \<longrightarrow>
      isOperationTx cfg (encodeSetOracleAuthority abi newAuthority) tx)
   \<and> (fst (buildPushOraclePriceTx abi cfg wallet slab price timestamp s) = Inr tx \<longrightarrow>
      isOperationTx cfg (encodePushOraclePrice abi price timestamp) tx)
   \<and> (fst (buildTopUpInsuranceTx abi cfg wallet slab mint vault amount s) = Inr tx \<longrightarrow>
      isOperationTx cfg (encodeTopUpInsurance abi amount) tx)"
  by (intro conjI impI;
      (erule buildInitUserTx_shape
       | erule buildDepositTx_shape
       | erule buildWithdrawTx_shape
       | erule buildTradeCpiTx_shape
       | erule buildTradeNoCpiTx_shape
       | erule buildKeeperCrankTx_shape
       | erule buildCloseAccountTx_shape
       | erule buildInitMarketTx_shape
       | erule buildInitLpTx_shape
       | erule buildSetOracleAuthorityTx_shape
       | erule buildPushOraclePriceTx_shape
       | erule buildTopUpInsuranceTx_shape))

lemmas builder_defs = buildInitUserTx_def buildDepositTx_def buildWithdrawTx_def
  buildTradeCpiTx_def buildTradeNoCpiTx_def buildKeeperCrankTx_def buildCloseAccountTx_def
  buildInitMarketTx_def buildInitLpTx_def buildSetOracleAuthorityTx_def
  buildPushOraclePriceTx_def buildTopUpInsuranceTx_def buildTransaction_def getAta_def
  getMarketConfig_def refreshSlab_def orDefault_def

theorem builders_prepend_compute_budget_witness:
  "(\<exists>tx. fst (buildInitUserTx (testEnv testSlab []) testAbi testClient testWallet None freshState) = Inr tx
        \<and> isOperationTx testClient (encodeInitUser testAbi (orDefault None 1000000)) tx)
   \<and> (\<exists>tx. fst (buildDepositTx (testEnv testSlab []) testAbi testClient testWallet 1 1000000 freshState) = Inr tx
        \<and> isOperationTx testClient (encodeDepositCollateral testAbi 1 1000000) tx)
   \<and> (\<exists>tx. fst (buildWithdrawTx (testEnv testSlab []) testAbi testClient testWallet 1 500000 freshState) = Inr tx
        \<and> isOperationTx testClient (encodeWithdrawCollateral testAbi 1 500000) tx)
   \<and> (\<exists>tx. fst (buildTradeCpiTx (testEnv testSlab []) testAbi testClient testWallet 1 0 2000000 ''matcher'' ''matcher-ctx'' freshState) = Inr tx
        \<and> isOperationTx testClient (encodeTradeCpi testAbi 0 1 2000000) tx)
   \<and> (\<exists>tx. fst (buildTradeNoCpiTx (testEnv testSlab []) testAbi testClient testWallet 1 0 2000000 None freshState) = Inr tx
        \<and> isOperationTx testClient (encodeTradeNoCpi testAbi 0 1 2000000) tx)
   \<and> (\<exists>tx. fst (buildKeeperCrankTx (testEnv testSlab []) testAbi testClient testWallet None freshState) = Inr tx
        \<and> isOperationTx testClient (encodeKeeperCrank testAbi (orDefault None 0) False) tx)
   \<and> (\<exists>tx. fst (buildCloseAccountTx (testEnv testSlab []) testAbi testClient testWallet 3 freshState) = Inr tx
        \<and> isOperationTx testClient (encodeCloseAccount testAbi 3) tx)
   \<and> (\<exists>tx. fst (buildInitMarketTx testAbi testClient testWallet ''slab'' ''mint'' ''vault'' ''vault'' (initMarketArgs ''alice'' 1000) freshState) = Inr tx
        \<and> isOperationTx testClient (encodeInitMarket testAbi (initMarketArgs ''alice'' 1000)) tx)
   \<and> (\<exists>tx. fst (buildInitLpTx testAbi testClient testWallet ''slab'' ''mint'' ''vault'' ''matcher'' ''matcher-ctx'' None freshState) = Inr tx
        \<and> isOperationTx testClient (encodeInitLP testAbi ''matcher'' ''matcher-ctx'' (orDefault None 1000000)) tx)
   \<and> (\<exists>tx. fst (buildSetOracleAuthorityTx testAbi testClient testWallet ''slab'' ''alice'' freshState) = Inr tx
        \<and> isOperationTx testClient (encodeSetOracleAuthority testAbi ''alice'') tx)
   \<and> (\<exists>tx. fst (buildPushOraclePriceTx testAbi testClient testWallet ''slab'' 1000 1700000000 freshState) = Inr tx
        \<and> isOperationTx testClient (encodePushOraclePrice testAbi 1000 1700000000) tx)
   \<and> (\<exists>tx. fst (buildTopUpInsuranceTx testAbi testClient testWallet ''slab'' ''mint'' ''vault'' 1000000 freshState) = Inr tx
        \<and> isOperationTx testClient (encodeTopUpInsurance testAbi 1000000) tx)"
proof -
  have r0: "\<exists>tx. fst (buildInitUserTx (testEnv testSlab []) testAbi testClient testWallet None freshState) = Inr tx"
    by (simp add: builder_defs prog_defs test_defs)
  have r1: "\<exists>tx. fst (buildDepositTx (testEnv testSlab []) testAbi testClient testWallet 1 1000000 freshState) = Inr tx"
    by (simp add: builder_defs prog_defs test_defs)
  have r2: "\<exists>tx. fst (buildWithdrawTx (testEnv testSlab []) testAbi testClient testWallet 1 500000 freshState) = Inr tx"
    by (simp add: builder_defs prog_defs test_defs)
  have r3: "\<exists>tx. fst (buildTradeCpiTx (testEnv testSlab []) testAbi testClient testWallet 1 0 2000000 ''matcher'' ''matcher-ctx'' freshState) = Inr tx"
    by (simp add: builder_defs prog_defs test_defs)
  have r4: "\<exists>tx. fst (buildTradeNoCpiTx (testEnv testSlab []) testAbi testClient testWallet 1 0 2000000 None freshState) = Inr tx"
    by (simp add: builder_defs prog_defs test_defs)
  have r5: "\<exists>tx. fst (buildKeeperCrankTx (testEnv testSlab []) testAbi testClient testWallet None freshState) = Inr tx"
    by (simp add: builder_defs prog_defs test_defs)
  have r6: "\<exists>tx. fst (buildCloseAccountTx (testEnv testSlab []) testAbi testClient testWallet 3 freshState) = Inr tx"
    by (simp add: builder_defs prog_defs test_defs)
  have r7: "\<exists>tx. fst (buildInitMarketTx testAbi testClient testWallet ''slab'' ''mint'' ''vault'' ''vault'' (initMarketArgs ''alice'' 1000) freshState) = Inr tx"
    by (simp add: builder_defs prog_defs test_defs)
  have r8: "\<exists>tx. fst (buildInitLpTx testAbi testClient testWallet ''slab'' ''mint'' ''vault'' ''matcher'' ''matcher-ctx'' None freshState) = Inr tx"
    by (simp add: builder_defs prog_defs test_defs)
  have r9: "\<exists>tx. fst (buildSetOracleAuthorityTx testAbi testClient testWallet ''slab'' ''alice'' freshState) = Inr tx"
    by (simp add: builder_defs prog_defs test_defs)
  have r10: "\<exists>tx. fst (buildPushOraclePriceTx testAbi testClient testWallet ''slab'' 1000 1700000000 freshState) = Inr tx"
    by (simp add: builder_defs prog_defs test_defs)
  have r11: "\<exists>tx. fst (buildTopUpInsuranceTx testAbi testClient testWallet ''slab'' ''mint'' ''vault'' 1000000 freshState) = Inr tx"
    by (simp add: builder_defs prog_defs test_defs)
  from r0 obtain t0 where q0: "fst (buildInitUserTx (testEnv testSlab []) testAbi testClient testWallet None freshState) = Inr t0" ..
  from r1 obtain t1 where q1: "fst (buildDepositTx (testEnv testSlab []) testAbi testClient testWallet 1 1000000 freshState) = Inr t1" ..
  from r2 obtain t2 where q2: "fst (buildWithdrawTx (testEnv testSlab []) testAbi testClient testWallet 1 500000 freshState) = Inr t2" ..
  from r3 obtain t3 where q3: "fst (buildTradeCpiTx (testEnv testSlab []) testAbi testClient testWallet 1 0 2000000 ''matcher'' ''matcher-ctx'' freshState) = Inr t3" ..
  from r4 obtain t4 where q4: "fst (buildTradeNoCpiTx (testEnv testSlab []) testAbi testClient testWallet 1 0 2000000 None freshState) = Inr t4" ..
  from r5 obtain t5 where q5: "fst (buildKeeperCrankTx (testEnv testSlab []) testAbi testClient testWallet None freshState) = Inr t5" ..
  from r6 obtain t6 where q6: "fst (buildCloseAccountTx (testEnv testSlab []) testAbi testClient testWallet 3 freshState) = Inr t6" ..
  from r7 obtain t7 where q7: "fst (buildInitMarketTx testAbi testClient testWallet ''slab'' ''mint'' ''vault'' ''vault'' (initMarketArgs ''alice'' 1000) freshState) = Inr t7" ..
  from r8 obtain t8 where q8: "fst (buildInitLpTx testAbi testClient testWallet ''slab'' ''mint'' ''vault'' ''matcher'' ''matcher-ctx'' None freshState) = Inr t8" ..
  from r9 obtain t9 where q9: "fst (buildSetOracleAuthorityTx testAbi testClient testWallet ''slab'' ''alice'' freshState) = Inr t9" ..
  from r10 obtain t10 where q10: "fst (buildPushOraclePriceTx testAbi testClient testWallet ''slab'' 1000 1700000000 freshState) = Inr t10" ..
  from r11 obtain t11 where q11: "fst (buildTopUpInsuranceTx testAbi testClient testWallet ''slab'' ''mint'' ''vault'' 1000000 freshState) = Inr t11" ..
  have c0: "isOperationTx testClient (encodeInitUser testAbi (orDefault None 1000000)) t0"
    using builders_prepend_compute_budget [where env = "(testEnv testSlab [])" and abi = "testAbi" and cfg = "testClient" and wallet = "testWallet" and feePayment = "None" and s = freshState and tx = t0] q0
    by blast
  have c1: "isOperationTx testClient (encodeDepositCollateral testAbi 1 1000000) t1"
    using builders_prepend_compute_budget [where env = "(testEnv testSlab [])" and abi = "testAbi" and cfg = "testClient" and wallet = "testWallet" and userIdx = "1" and amount = "1000000" and s = freshState and tx = t1] q1
    by blast
  have c2: "isOperationTx testClient (encodeWithdrawCollateral testAbi 1 500000) t2"
    using builders_prepend_compute_budget [where env = "(testEnv testSlab [])" and abi = "testAbi" and cfg = "testClient" and wallet = "testWallet" and userIdx = "1" and amount = "500000" and s = freshState and tx = t2] q2
    by blast
  have c3: "isOperationTx testClient (encodeTradeCpi testAbi 0 1 2000000) t3"
    using builders_prepend_compute_budget [where env = "(testEnv testSlab [])" and abi = "testAbi" and cfg = "testClient" and wallet = "testWallet" and userIdx = "1" and lpIdx = "0" and sz = "2000000" and matcher = "''matcher''" and matcherCtx = "''matcher-ctx''" and s = freshState and tx = t3] q3
    by blast
  have c4: "isOperationTx testClient (encodeTradeNoCpi testAbi 0 1 2000000) t4"
    using builders_prepend_compute_budget [where env = "(testEnv testSlab [])" and abi = "testAbi" and cfg = "testClient" and wallet = "testWallet" and userIdx = "1" and lpIdx = "0" and sz = "2000000" and lpOwnerWallet = "None" and s = freshState and tx = t4] q4
    by blast
  have c5: "isOperationTx testClient (encodeKeeperCrank testAbi (orDefault None 0) False) t5"
    using builders_prepend_compute_budget [where env = "(testEnv testSlab [])" and abi = "testAbi" and cfg = "testClient" and wallet = "testWallet" and callerIdx = "None" and s = freshState and tx = t5] q5
    by blast
  have c6: "isOperationTx testClient (encodeCloseAccount testAbi 3) t6"
    using builders_prepend_compute_budget [where env = "(testEnv testSlab [])" and abi = "testAbi" and cfg = "testClient" and wallet = "testWallet" and userIdx = "3" and s = freshState and tx = t6] q6
    by blast
  have c7: "isOperationTx testClient (encodeInitMarket testAbi (initMarketArgs ''alice'' 1000)) t7"
    using builders_prepend_compute_budget [where abi = "testAbi" and cfg = "testClient" and wallet = "testWallet" and slab = "''slab''" and mint = "''mint''" and vault = "''vault''" and dummyAta = "''vault''" and marketArgs = "(initMarketArgs ''alice'' 1000)" and s = freshState and tx = t7] q7
    by blast
  have c8: "isOperationTx testClient (encodeInitLP testAbi ''matcher'' ''matcher-ctx'' (orDefault None 1000000)) t8"
    using builders_prepend_compute_budget [where abi = "testAbi" and cfg = "testClient" and wallet = "testWallet" and slab = "''slab''" and mint = "''mint''" and vault = "''vault''" and matcher = "''matcher''" and ctx = "''matcher-ctx''" and feePayment = "None" and s = freshState and tx = t8] q8
    by blast
  have c9: "isOperationTx testClient (encodeSetOracleAuthority testAbi ''alice'') t9"
    using builders_prepend_compute_budget [where abi = "testAbi" and cfg = "testClient" and wallet = "testWallet" and slab = "''slab''" and newAuthority = "''alice''" and s = freshState and tx = t9] q9
    by blast
  have c10: "isOperationTx testClient (encodePushOraclePrice testAbi 1000 1700000000) t10"
    using builders_prepend_compute_budget [where abi = "testAbi" and cfg = "testClient" and wallet = "testWallet" and slab = "''slab''" and price = "1000" and timestamp = "1700000000" and s = freshState and tx = t10] q10
    by blast
  have c11: "isOperationTx testClient (encodeTopUpInsurance testAbi 1000000) t11"
    using builders_prepend_compute_budget [where abi = "testAbi" and cfg = "testClient" and wallet = "testWallet" and slab = "''slab''" and mint = "''mint''" and vault = "''vault''" and amount = "1000000" and s = freshState and tx = t11] q11
    by blast
  show ?thesis
    using q0 c0 q1 c1 q2 c2 q3 c3 q4 c4 q5 c5 q6 c6 q7 c7 q8 c8 q9 c9 q10 c10 q11 c11
    by blast
qed

subsection \<open>The saga\<close>


































end
